theory Spec2Isabelle
  imports Complex_Main "HOL-Library.Product_Lexorder" "HOL-Library.List_Lexorder" "HOL-Library.Char_ord"
begin

section \<open>Python values, errors and numeric helpers\<close>

text \<open>
  Python floats are idealised as reals and Python ints are unbounded integers.
  Exceptions are values: a computation that can raise returns \<open>py_error + 'a\<close>.
\<close>

datatype py_error =
    ValueError string
  | IndexError
  | KeyError
  | ZeroDivisionError
  | OverflowError
  | OtherException string
  | KeyboardInterrupt

text \<open>\<open>isinstance(e, Exception)\<close>: \<open>KeyboardInterrupt\<close> derives from \<open>BaseException\<close> only.\<close>

fun is_Exception :: "py_error \<Rightarrow> bool" where
  "is_Exception KeyboardInterrupt = False"
| "is_Exception _ = True"

fun is_ValueError :: "py_error \<Rightarrow> bool" where
  "is_ValueError (ValueError _) = True"
| "is_ValueError _ = False"

text \<open>Python's \<open>round(x, n)\<close>: to \<open>n\<close> decimal places, ties to the even neighbour.\<close>

definition py_round :: "real \<Rightarrow> nat \<Rightarrow> real" where
  "py_round x n =
     (let y = x * 10 ^ n;
          f = \<lfloor>y\<rfloor>;
          d = y - of_int f
      in of_int (if d < 1 / 2 then f
                 else if 1 / 2 < d then f + 1
                 else if even f then f else f + 1) / 10 ^ n)"

text \<open>\<open>np.clip(x, lo, hi)\<close>, which numpy computes as \<open>minimum(hi, maximum(x, lo))\<close>.\<close>

definition clip :: "'a::linorder \<Rightarrow> 'a \<Rightarrow> 'a \<Rightarrow> 'a" where
  "clip x lo hi = min hi (max x lo)"

text \<open>\<open>.astype(int)\<close> and \<open>int(x)\<close> on a float: truncation towards zero.\<close>

definition trunc :: "real \<Rightarrow> int" where
  "trunc x = (if 0 \<le> x then \<lfloor>x\<rfloor> else \<lceil>x\<rceil>)"

subsection \<open>Decimal formatting\<close>

definition digit_char :: "nat \<Rightarrow> char" where
  "digit_char d = char_of (48 + d)"

fun str_nat :: "nat \<Rightarrow> string" where
  "str_nat n = (if n < 10 then [digit_char n] else str_nat (n div 10) @ [digit_char (n mod 10)])"

declare str_nat.simps [simp del]

text \<open>\<open>str(i)\<close> for an int.\<close>

definition str_int :: "int \<Rightarrow> string" where
  "str_int i = (if i < 0 then CHR ''-'' # str_nat (nat (- i)) else str_nat (nat i))"

text \<open>The format specifications \<open>:02d\<close>, \<open>:04d\<close> and \<open>:06d\<close>: zero padding on the left to a minimal width.\<close>

definition zpad :: "nat \<Rightarrow> nat \<Rightarrow> string" where
  "zpad w n = replicate (w - length (str_nat n)) CHR ''0'' @ str_nat n"

section \<open>The random-number libraries\<close>

text \<open>
  The generators draw from \<open>numpy.random\<close> and from Python's \<open>random\<close>, two libraries
  with a global generator state each. The libraries are parameters of the model: a state
  type and, for every call the generators make, a function from the state to the drawn
  value and the next state. \<open>np_seed\<close> and \<open>py_seed\<close> are \<open>np.random.seed\<close> (which raises
  on a seed it does not accept) and \<open>random.seed\<close>; \<open>py_index n\<close> is the position
  \<open>random.choice\<close> picks in a sequence of length \<open>n\<close>; \<open>py_sample lo hi k\<close> is
  \<open>random.sample(range(lo, hi), k)\<close>; \<open>md5_uuid s\<close> is
  \<open>str(uuid.UUID(hashlib.md5(s.encode()).hexdigest()))\<close>.
\<close>

datatype dist =
    Lognormal real real
  | Exponential real
  | Beta real real
  | Gamma real real
  | Normal real real
  | Uniform real real
  | Random

datatype idist =
    Choice "real list"
  | Randint int int
  | Poisson real
  | Binomial int real

record ('g, 'h) lib =
  np_seed :: "int \<Rightarrow> py_error + 'g"
  np_real :: "dist \<Rightarrow> 'g \<Rightarrow> real \<times> 'g"
  np_int :: "idist \<Rightarrow> 'g \<Rightarrow> int \<times> 'g"
  np_dirichlet :: "real list \<Rightarrow> 'g \<Rightarrow> real list \<times> 'g"
  py_seed :: "int \<Rightarrow> 'h"
  py_randint :: "int \<Rightarrow> int \<Rightarrow> 'h \<Rightarrow> int \<times> 'h"
  py_index :: "nat \<Rightarrow> 'h \<Rightarrow> nat \<times> 'h"
  py_sample :: "int \<Rightarrow> int \<Rightarrow> nat \<Rightarrow> 'h \<Rightarrow> int list \<times> 'h"
  md5_uuid :: "string \<Rightarrow> string"

text \<open>
  The range of values each distribution can return, as the libraries document it:
  an exponential or gamma draw is non-negative, a beta draw lies in \<open>[0, 1]\<close>, a log-normal
  draw is positive, \<open>random()\<close> lies in \<open>[0, 1)\<close>, \<open>uniform(a, b)\<close> between \<open>a\<close> and \<open>b\<close>.
\<close>

fun in_support :: "dist \<Rightarrow> real \<Rightarrow> bool" where
  "in_support (Lognormal m s) x = (0 < x)"
| "in_support (Exponential s) x = (0 \<le> x)"
| "in_support (Beta a b) x = (0 \<le> x \<and> x \<le> 1)"
| "in_support (Gamma k s) x = (0 \<le> x)"
| "in_support (Normal m s) x = True"
| "in_support (Uniform a b) x = (min a b \<le> x \<and> x \<le> max a b)"
| "in_support Random x = (0 \<le> x \<and> x < 1)"

definition np_sound :: "('g, 'h) lib \<Rightarrow> bool" where
  "np_sound L = (\<forall>d g. in_support d (fst (np_real L d g)))"

text \<open>\<open>np.random.choice(options, p=ps)\<close>: the library picks an index, the option at it is returned.\<close>

definition np_choice :: "('g, 'h) lib \<Rightarrow> 'a list \<Rightarrow> real list \<Rightarrow> 'g \<Rightarrow> 'a \<times> 'g" where
  "np_choice L options ps g = (let (i, g') = np_int L (Choice ps) g in (options ! nat i, g'))"

text \<open>\<open>random.choice(xs)\<close>.\<close>

definition py_choice :: "('g, 'h) lib \<Rightarrow> 'a list \<Rightarrow> 'h \<Rightarrow> 'a \<times> 'h" where
  "py_choice L xs h = (let (i, h') = py_index L (length xs) h in (xs ! i, h'))"

section \<open>Dates and times\<close>

text \<open>
  A \<open>datetime\<close> object holds its calendar fields; the generators never set microseconds.
  Comparison is field by field from the year down, and \<open>timedelta\<close> arithmetic carries
  through the proleptic Gregorian calendar. The years of a \<open>datetime\<close> are 1 to 9999:
  arithmetic that leaves them raises \<open>OverflowError\<close>.
\<close>

record datetime =
  year :: nat
  month :: nat
  day :: nat
  hour :: nat
  minute :: nat
  second :: nat

definition is_leap :: "nat \<Rightarrow> bool" where
  "is_leap y = (y mod 4 = 0 \<and> (y mod 100 \<noteq> 0 \<or> y mod 400 = 0))"

definition days_in_month :: "nat \<Rightarrow> nat \<Rightarrow> nat" where
  "days_in_month y m =
     (if m = 2 then (if is_leap y then 29 else 28)
      else if m = 4 \<or> m = 6 \<or> m = 9 \<or> m = 11 then 30 else 31)"

definition valid_datetime :: "datetime \<Rightarrow> bool" where
  "valid_datetime dt =
     (1 \<le> year dt \<and> year dt \<le> 9999 \<and> 1 \<le> month dt \<and> month dt \<le> 12 \<and>
      1 \<le> day dt \<and> day dt \<le> days_in_month (year dt) (month dt) \<and>
      hour dt < 24 \<and> minute dt < 60 \<and> second dt < 60)"

definition dt_key :: "datetime \<Rightarrow> nat \<times> nat \<times> nat \<times> nat \<times> nat \<times> nat" where
  "dt_key dt = (year dt, month dt, day dt, hour dt, minute dt, second dt)"

text \<open>\<open>a <= b\<close> on datetimes.\<close>

definition dt_le :: "datetime \<Rightarrow> datetime \<Rightarrow> bool" where
  "dt_le a b = (dt_key a \<le> dt_key b)"

definition next_day :: "datetime \<Rightarrow> datetime" where
  "next_day dt =
     (if day dt < days_in_month (year dt) (month dt) then dt\<lparr>day := day dt + 1\<rparr>
      else if month dt < 12 then dt\<lparr>month := month dt + 1, day := 1\<rparr>
      else dt\<lparr>year := year dt + 1, month := 1, day := 1\<rparr>)"

definition prev_day :: "datetime \<Rightarrow> datetime" where
  "prev_day dt =
     (if 1 < day dt then dt\<lparr>day := day dt - 1\<rparr>
      else if 1 < month dt then dt\<lparr>month := month dt - 1, day := days_in_month (year dt) (month dt - 1)\<rparr>
      else dt\<lparr>year := year dt - 1, month := 12, day := 31\<rparr>)"

definition check_range :: "datetime \<Rightarrow> py_error + datetime" where
  "check_range dt = (if 1 \<le> year dt \<and> year dt \<le> 9999 then Inr dt else Inl OverflowError)"

text \<open>\<open>dt + timedelta(days=n)\<close>, for an int \<open>n\<close> of either sign.\<close>

definition add_days :: "int \<Rightarrow> datetime \<Rightarrow> py_error + datetime" where
  "add_days n dt =
     check_range (if 0 \<le> n then (next_day ^^ nat n) dt else (prev_day ^^ nat (- n)) dt)"

text \<open>\<open>dt + timedelta(hours=1)\<close>.\<close>

definition add_hour :: "datetime \<Rightarrow> py_error + datetime" where
  "add_hour dt =
     check_range (if hour dt < 23 then dt\<lparr>hour := hour dt + 1\<rparr> else next_day (dt\<lparr>hour := 0\<rparr>))"




text \<open>\<open>strftime("%Y-%m-%d")\<close> and \<open>date.isoformat()\<close>.\<close>

definition strftime_ymd :: "datetime \<Rightarrow> string" where
  "strftime_ymd dt = zpad 4 (year dt) @ ''-'' @ zpad 2 (month dt) @ ''-'' @ zpad 2 (day dt)"

text \<open>\<open>isoformat()\<close> of a datetime whose \<open>tzinfo\<close> is UTC.\<close>

definition isoformat :: "datetime \<Rightarrow> string" where
  "isoformat dt =
     strftime_ymd dt @ ''T'' @ zpad 2 (hour dt) @ '':'' @ zpad 2 (minute dt) @ '':'' @
     zpad 2 (second dt) @ ''+00:00''"

definition is_digit :: "char \<Rightarrow> bool" where
  "is_digit c = ((48::nat) \<le> of_char c \<and> of_char c \<le> (57::nat))"

definition digit_val :: "char \<Rightarrow> nat" where
  "digit_val c = of_char c - 48"

fun parse_nat :: "nat \<Rightarrow> string \<Rightarrow> nat" where
  "parse_nat acc [] = acc"
| "parse_nat acc (c # cs) = parse_nat (acc * 10 + digit_val c) cs"

text \<open>
  \<open>datetime.fromisoformat(s)\<close> for the documented argument format \<open>YYYY-MM-DD\<close>: midnight
  of that day, and \<open>ValueError\<close> for a string that is not a date of that format.
\<close>

definition fromisoformat :: "string \<Rightarrow> py_error + datetime" where
  "fromisoformat s =
     (if length s = 10 \<and> s ! 4 = CHR ''-'' \<and> s ! 7 = CHR ''-'' \<and>
         list_all is_digit (take 4 s) \<and> list_all is_digit (take 2 (drop 5 s)) \<and>
         list_all is_digit (drop 8 s)
      then
        let dt = \<lparr>year = parse_nat 0 (take 4 s), month = parse_nat 0 (take 2 (drop 5 s)),
                  day = parse_nat 0 (drop 8 s), hour = 0, minute = 0, second = 0\<rparr>
        in if valid_datetime dt then Inr dt else Inl (ValueError ''Invalid isoformat string'')
      else Inl (ValueError ''Invalid isoformat string''))"

section \<open>The card-fraud generator\<close>

text \<open>\<open>data/binary-classifier-card-fraud/datagen/generate_dataset.py\<close>\<close>

record transaction =
  timestamp :: string
  txn_id :: string
  account_id :: string
  customer_id :: string
  is_fraud :: int
  fraud_score :: real
  fraud_pred :: int
  rules_engine_flag :: int
  risk_rank :: int
  customer_segment :: string
  channel :: string
  region :: string
  txn_amount :: real
  distance_from_home_km :: real
  merchant_risk_score :: real
  digital_engagement :: real
  tenure_months :: int

definition customer_segments :: "string list" where
  "customer_segments = [''new_to_bank'', ''established'', ''small_business'']"

definition channels :: "string list" where
  "channels = [''ecom'', ''in_store'', ''atm'']"

definition regions :: "string list" where
  "regions = [''W'', ''NE'', ''MW'', ''S'']"

text \<open>Lines 126-146: the fraud probability, adjusted factor by factor and then clipped.\<close>

definition fraud_base_prob :: "string \<Rightarrow> real \<Rightarrow> real \<Rightarrow> real \<Rightarrow> string \<Rightarrow> real" where
  "fraud_base_prob segment amount distance_from_home merchant_risk chan =
     (let p = 0.05;
          p = (if segment = ''new_to_bank'' then p * 1.5 else p);
          p = (if amount > 500 then p * 1.3 else p);
          p = (if distance_from_home > 50 then p * 1.4 else p);
          p = (if merchant_risk > 0.5 then p * 1.2 else p);
          p = (if chan = ''atm'' then p * 1.3 else p)
      in min p 0.30)"

text \<open>Lines 174-183: the risk rank of a fraud score.\<close>

definition risk_rank_of :: "real \<Rightarrow> int" where
  "risk_rank_of score =
     (if score < 0.1 then 1
      else if score < 0.2 then 2
      else if score < 0.4 then 3
      else if score < 0.6 then 4
      else 5)"

record stats0 =
  total_transactions :: int
  total_fraud :: int
  files_created :: int
  date_range :: string

record stats = stats0 +
  fraud_rate :: real

type_synonym path = "string list"

text \<open>
  The file system is a map from paths to file contents. \<open>Path(output_dir) / a / b\<close> appends
  components; \<open>mkdir(parents=True, exist_ok=True)\<close> followed by \<open>open(p, 'w')\<close> and a dump
  stores the contents at \<open>p\<close>, replacing what was there.
\<close>

type_synonym 'c filesystem = "path \<Rightarrow> 'c option"

text \<open>Lines 81-122: segment, channel, region and the numeric features.\<close>

definition gen_features ::
  "('g, 'h) lib \<Rightarrow> 'g \<Rightarrow> (string \<times> string \<times> string \<times> real \<times> real \<times> real \<times> real \<times> int) \<times> 'g" where
  "gen_features L g =
     (let (segment, g) = np_choice L customer_segments [0.15, 0.70, 0.15] g;
          (chan, g) = np_choice L channels [0.60, 0.35, 0.05] g;
          (reg, g) = np_choice L regions [0.25, 0.25, 0.25, 0.25] g;
          (amount, g) = np_real L (Lognormal 3.0 0.8) g;
          amount = py_round amount 2;
          amount = max 1.0 (min amount 10000.0);
          (distance_from_home, g) = np_real L (Exponential 10.0) g;
          distance_from_home = py_round distance_from_home 2;
          distance_from_home = min distance_from_home 1000.0;
          (merchant_risk, g) = np_real L (Beta 2 8) g;
          merchant_risk = py_round merchant_risk 4;
          (engagement, g) = np_real L (Gamma 2 2) g;
          engagement = py_round engagement 2;
          engagement = min engagement 10.0;
          (tenure, g) =
            (if segment = ''new_to_bank'' then np_int L (Randint 0 12) g
             else if segment = ''small_business'' then np_int L (Randint 12 120) g
             else np_int L (Randint 6 120) g)
      in ((segment, chan, reg, amount, distance_from_home, merchant_risk, engagement, tenure), g))"

text \<open>Lines 124-148: the ground truth, a Bernoulli draw with the fraud probability.\<close>

definition gen_is_fraud ::
  "('g, 'h) lib \<Rightarrow> string \<Rightarrow> real \<Rightarrow> real \<Rightarrow> real \<Rightarrow> string \<Rightarrow> 'g \<Rightarrow> int \<times> 'g" where
  "gen_is_fraud L segment amount distance_from_home merchant_risk chan g =
     (let p = fraud_base_prob segment amount distance_from_home merchant_risk chan;
          (u, g) = np_real L Random g
      in ((if u < p then 1 else 0), g))"

text \<open>Lines 150-164: the model's score, a mixture of two beta draws, rounded and clamped.\<close>

definition gen_fraud_score :: "('g, 'h) lib \<Rightarrow> int \<Rightarrow> 'g \<Rightarrow> real \<times> 'g" where
  "gen_fraud_score L fraud g =
     (let (score, g) =
            (if fraud = 1 then
               let (a, g) = np_real L (Beta 3 7) g;
                   (b, g) = np_real L (Beta 6 2) g
               in (a * 0.4 + b * 0.6, g)
             else
               let (a, g) = np_real L (Beta 2 8) g;
                   (b, g) = np_real L (Beta 3 7) g
               in (a * 0.7 + b * 0.3, g));
          score = py_round score 6;
          score = max 0.0 (min 1.0 score)
      in (score, g))"

text \<open>
  Lines 81-213, the body of the inner loop: one transaction for the hour \<open>current_dt\<close>,
  given the transactions already generated for that hour.
\<close>

definition gen_transaction ::
  "('g, 'h) lib \<Rightarrow> datetime \<Rightarrow> transaction list \<Rightarrow> string list \<Rightarrow> string list \<Rightarrow> 'g \<times> 'h \<Rightarrow>
     transaction \<times> ('g \<times> 'h)" where
  "gen_transaction L current_dt transactions account_ids customer_ids rng =
     (let (g, h) = rng;
          ((segment, chan, reg, amount, distance_from_home, merchant_risk, engagement, tenure), g) =
            gen_features L g;
          (fraud, g) = gen_is_fraud L segment amount distance_from_home merchant_risk chan g;
          (score, g) = gen_fraud_score L fraud g;
          pred = (if score \<ge> 0.5 then 1 else 0);
          flag = (if amount > 200 \<and> distance_from_home > 30 then 1 else 0);
          rank = risk_rank_of score;
          tid = md5_uuid L (isoformat current_dt @ ''_'' @ str_nat (length transactions));
          (acct, h) = py_choice L account_ids h;
          (cust, h) = py_choice L customer_ids h
      in (\<lparr>timestamp = isoformat current_dt, txn_id = tid, account_id = acct,
            customer_id = cust, is_fraud = fraud, fraud_score = score, fraud_pred = pred,
            rules_engine_flag = flag, risk_rank = rank, customer_segment = segment,
            channel = chan, region = reg, txn_amount = amount,
            distance_from_home_km = distance_from_home, merchant_risk_score = merchant_risk,
            digital_engagement = engagement, tenure_months = tenure\<rparr>, (g, h)))"

text \<open>Lines 80-218: the inner loop, \<open>n\<close> more transactions for the hour.\<close>

fun gen_hour ::
  "('g, 'h) lib \<Rightarrow> datetime \<Rightarrow> string list \<Rightarrow> string list \<Rightarrow> nat \<Rightarrow>
     transaction list \<times> stats0 \<times> ('g \<times> 'h) \<Rightarrow> transaction list \<times> stats0 \<times> ('g \<times> 'h)" where
  "gen_hour L current_dt account_ids customer_ids 0 st = st"
| "gen_hour L current_dt account_ids customer_ids (Suc n) (transactions, st, rng) =
     (let (t, rng) = gen_transaction L current_dt transactions account_ids customer_ids rng;
          transactions = transactions @ [t];
          st = st\<lparr>total_transactions := total_transactions st + 1\<rparr>;
          st = (if is_fraud t = 1 then st\<lparr>total_fraud := total_fraud st + 1\<rparr> else st)
      in gen_hour L current_dt account_ids customer_ids n (transactions, st, rng))"

text \<open>Line 224: the file of an hour.\<close>

definition file_path :: "path \<Rightarrow> datetime \<Rightarrow> path" where
  "file_path output_path dt =
     output_path @ [''year='' @ str_nat (year dt), ''month='' @ zpad 2 (month dt),
                    ''day='' @ zpad 2 (day dt), ''inferences_hour='' @ zpad 2 (hour dt) @ ''.json'']"

text \<open>
  Lines 71-233: the loop over the hours. \<open>range(transactions_per_hour)\<close> is empty for a
  negative argument.
\<close>

function hour_loop ::
  "('g, 'h) lib \<Rightarrow> datetime \<Rightarrow> int \<Rightarrow> path option \<Rightarrow> string list \<Rightarrow> string list \<Rightarrow>
     datetime \<times> stats0 \<times> ('g \<times> 'h) \<times> transaction list filesystem \<Rightarrow>
     py_error + (stats0 \<times> ('g \<times> 'h) \<times> transaction list filesystem)" where
  "hour_loop L end_dt transactions_per_hour output_dir account_ids customer_ids
     (current_dt, st, rng, fs) =
     (if dt_le current_dt end_dt then
        let (transactions, st, rng) =
              gen_hour L current_dt account_ids customer_ids (nat transactions_per_hour) ([], st, rng);
            (st, fs) =
              (case output_dir of
                 None \<Rightarrow> (st, fs)
               | Some output_path \<Rightarrow>
                   (st\<lparr>files_created := files_created st + 1\<rparr>,
                    fs(file_path output_path current_dt \<mapsto> transactions)))
        in case add_hour current_dt of
             Inl e \<Rightarrow> Inl e
           | Inr next_dt \<Rightarrow>
               hour_loop L end_dt transactions_per_hour output_dir account_ids customer_ids
                 (next_dt, st, rng, fs)
      else Inr (st, rng, fs))"
  by pat_completeness auto
termination
proof (relation "measures
    [\<lambda>(L, e, n, od, a, c, (dt, st, rng, fs)). year e + 1 - year dt,
     \<lambda>(L, e, n, od, a, c, (dt, st, rng, fs)). 13 - month dt,
     \<lambda>(L, e, n, od, a, c, (dt, st, rng, fs)). 32 - day dt,
     \<lambda>(L, e, n, od, a, c, (dt, st, rng, fs)). 24 - hour dt]", goal_cases)
  case 1
  show ?case by simp
next
  case (2 L end_dt transactions_per_hour output_dir account_ids customer_ids current_dt st rng fs
      x xa y xb ya xc xd yb next_dt)
  have le: "year current_dt \<le> year end_dt"
    using 2(1) by (auto simp: dt_le_def dt_key_def less_eq_prod_def)
  have dim: "days_in_month y m \<le> 31" for y m
    by (simp add: days_in_month_def)
  from 2 le dim[of "year current_dt" "month current_dt"] show ?case
    by (auto simp: add_hour_def check_range_def next_day_def split: if_splits)
qed

text \<open>\<open>[f"{prefix}{random.randint(lo, hi)}" for _ in range(n)]\<close>, lines 58-59.\<close>

fun gen_ids :: "('g, 'h) lib \<Rightarrow> string \<Rightarrow> int \<Rightarrow> int \<Rightarrow> nat \<Rightarrow> 'h \<Rightarrow> string list \<times> 'h" where
  "gen_ids L prefix lo hi 0 h = ([], h)"
| "gen_ids L prefix lo hi (Suc n) h =
     (let (i, h) = py_randint L lo hi h;
          (ids, h) = gen_ids L prefix lo hi n h
      in ((prefix @ str_int i) # ids, h))"

text \<open>\<open>datetime.now().replace(hour=0, minute=0, second=0, microsecond=0)\<close>\<close>

definition midnight :: "datetime \<Rightarrow> datetime" where
  "midnight now = now\<lparr>hour := 0, minute := 0, second := 0\<rparr>"

text \<open>
  Lines 38-43: the date strings, derived from the clock where an argument is \<open>None\<close>.
\<close>

definition default_dates ::
  "string option \<Rightarrow> string option \<Rightarrow> int \<Rightarrow> int \<Rightarrow> datetime \<Rightarrow> py_error + (string \<times> string)" where
  "default_dates start_date end_date past_days future_days now =
     (let today = midnight now
      in case (case start_date of
                 Some s \<Rightarrow> Inr s
               | None \<Rightarrow> map_sum id strftime_ymd (add_days (- past_days) today)) of
           Inl e \<Rightarrow> Inl e
         | Inr s \<Rightarrow>
             (case (case end_date of
                      Some e \<Rightarrow> Inr e
                    | None \<Rightarrow> map_sum id strftime_ymd (add_days future_days today)) of
                Inl e \<Rightarrow> Inl e
              | Inr e \<Rightarrow> Inr (s, e)))"

text \<open>
  \<open>generate_dataset\<close>, lines 10-238. Besides its arguments the function reads the clock
  (\<open>now\<close>) and the file system, and returns the statistics and the file system it leaves.
\<close>

definition generate_dataset ::
  "('g, 'h) lib \<Rightarrow> string option \<Rightarrow> string option \<Rightarrow> int \<Rightarrow> int \<Rightarrow> int \<Rightarrow> path option \<Rightarrow> int \<Rightarrow>
     datetime \<Rightarrow> transaction list filesystem \<Rightarrow> py_error + (stats \<times> transaction list filesystem)" where
  "generate_dataset L start_date end_date past_days future_days transactions_per_hour output_dir
     seed now fs =
     (case default_dates start_date end_date past_days future_days now of
        Inl e \<Rightarrow> Inl e
      | Inr (start_date, end_date) \<Rightarrow>
     (case np_seed L seed of
        Inl e \<Rightarrow> Inl e
      | Inr g \<Rightarrow>
     (let h = py_seed L seed
      in case fromisoformat start_date of
        Inl e \<Rightarrow> Inl e
      | Inr start_dt \<Rightarrow>
     (case fromisoformat end_date of
        Inl e \<Rightarrow> Inl e
      | Inr end_dt \<Rightarrow>
     (let (account_ids, h) = gen_ids L ''acct_'' 10000 50000 1000 h;
          (customer_ids, h) = gen_ids L ''cust_'' 10000 30000 2000 h;
          st = \<lparr>total_transactions = 0, total_fraud = 0, files_created = 0,
                date_range = start_date @ '' to '' @ end_date\<rparr>
      in case hour_loop L end_dt transactions_per_hour output_dir account_ids customer_ids
                (start_dt, st, (g, h), fs) of
           Inl e \<Rightarrow> Inl e
         | Inr (st, rng, fs) \<Rightarrow>
             Inr (stats0.extend st
                    \<lparr>fraud_rate = (if total_transactions st > 0
                                    then real_of_int (total_fraud st) / real_of_int (total_transactions st)
                                    else 0)\<rparr>, fs))))))"

section \<open>The credit-card application generator\<close>

text \<open>
  \<open>data/cc-application/datagen/generate_dataset.py\<close>. A numpy array is a list, and a call
  with \<open>size=n\<close> is \<open>n\<close> draws in a row (a negative \<open>size\<close> raises \<open>ValueError\<close>). A
  DataFrame is the list of its rows.
\<close>

record application =
  partition_date :: "nat \<times> nat \<times> nat"
  timestamp :: datetime
  application_id :: int
  region :: string
  actual_label :: int
  predicted_label :: int
  predicted_probability :: real
  is_valid_application :: int
  credit_score :: int
  annual_income :: int
  age :: int
  employment_status :: string
  years_at_job :: int
  debt_to_income_ratio :: real
  num_credit_cards :: int
  years_credit_history :: int

fun draws :: "('g \<Rightarrow> 'a \<times> 'g) \<Rightarrow> nat \<Rightarrow> 'g \<Rightarrow> 'a list \<times> 'g" where
  "draws f 0 g = ([], g)"
| "draws f (Suc n) g = (let (x, g) = f g; (xs, g) = draws f n g in (x # xs, g))"

text \<open>A loop \<open>for i in range(n)\<close> whose body draws one value from the row \<open>i\<close> and appends it.\<close>

fun map_state :: "('a \<Rightarrow> 'g \<Rightarrow> 'b \<times> 'g) \<Rightarrow> 'a list \<Rightarrow> 'g \<Rightarrow> 'b list \<times> 'g" where
  "map_state f [] g = ([], g)"
| "map_state f (x # xs) g = (let (y, g) = f x g; (ys, g) = map_state f xs g in (y # ys, g))"

definition region_names :: "string list" where
  "region_names = [''Region_North'', ''Region_South'', ''Region_East'', ''Region_West'']"

definition employment_names :: "string list" where
  "employment_names = [''Employed'', ''Self-employed'', ''Unemployed'', ''Retired'']"

text \<open>Lines 62-105: the feature columns.\<close>

definition gen_columns ::
  "('g, 'h) lib \<Rightarrow> nat \<Rightarrow> 'g \<Rightarrow>
     (string list \<times> int list \<times> int list \<times> int list \<times> string list \<times> int list \<times> real list \<times>
      int list \<times> int list) \<times> 'g" where
  "gen_columns L n g =
     (let (groups, g) = draws (np_choice L region_names [0.3, 0.25, 0.25, 0.2]) n g;
          (xs, g) = draws (np_real L (Normal 650 100)) n g;
          credit = map (\<lambda>x. trunc (clip x 300 850)) xs;
          (xs, g) = draws (np_real L (Lognormal 10.5 0.8)) n g;
          income = map trunc xs;
          income = map (\<lambda>x. clip x 20000 200000) income;
          (xs, g) = draws (np_real L (Gamma 2 15)) n g;
          ages = map trunc xs;
          ages = map (\<lambda>x. clip x 18 75) ages;
          (employment, g) =
            draws (np_choice L employment_names [0.6, 0.15, 0.15, 0.1]) n g;
          (us, g) = draws (np_real L (Uniform 0.1 0.4)) n g;
          job_years = map (\<lambda>(a, u). clip (trunc (real_of_int a * u)) 0 40) (zip ages us);
          job_years = map (\<lambda>(e, y). if e = ''Unemployed'' \<or> e = ''Retired'' then 0 else y)
                        (zip employment job_years);
          (bs, g) = draws (np_real L (Beta 2 5)) n g;
          dti = map (\<lambda>b. b * 0.8) bs;
          dti = map (\<lambda>(d, i). clip (d + (1 - real_of_int i / 200000) * 0.2) 0 0.8) (zip dti income);
          (ps, g) = draws (np_int L (Poisson 2)) n g;
          cards = map (\<lambda>(c, p). clip (trunc (real_of_int (c - 300) / 550 * 8 + real_of_int p)) 0 10)
                    (zip credit ps);
          (xs, g) = draws (np_real L (Normal 0 3)) n g;
          history = map (\<lambda>(a, x). clip (trunc (real_of_int (a - 18) + x)) 0 50) (zip ages xs);
          history = map (\<lambda>y. max y 0) history
      in ((groups, credit, income, ages, employment, job_years, dti, cards, history), g))"

text \<open>Lines 111-143: the body of the loop over the ground-truth labels.\<close>

definition gen_actual_label ::
  "('g, 'h) lib \<Rightarrow> string \<times> int \<times> int \<times> real \<times> string \<times> int \<Rightarrow> 'g \<Rightarrow> int \<times> 'g" where
  "gen_actual_label L row g =
     (let (grp, credit, income, dti, employment, history) = row;
          base_prob = real_of_int (credit - 300) / 550;
          income_factor = min 1.0 (real_of_int income / 100000);
          dti_factor = 1.0 - dti;
          employment_factor =
            (if employment = ''Employed'' then 1.0
             else if employment = ''Self-employed'' then 0.8 else 0.5);
          history_factor = min 1.0 (real_of_int history / 10);
          approval_prob = base_prob * 0.4 + income_factor * 0.2 + dti_factor * 0.15 +
                          employment_factor * 0.15 + history_factor * 0.1;
          approval_prob =
            (if grp = ''Region_North'' then approval_prob * 1.1
             else if grp = ''Region_South'' then approval_prob * 0.9
             else if grp = ''Region_East'' then approval_prob * 1.05
             else approval_prob);
          approval_prob = clip approval_prob 0.05 0.95
      in np_int L (Binomial 1 approval_prob) g)"

text \<open>Lines 152-193: the body of the loop over the predicted probabilities.\<close>

definition gen_predicted_prob ::
  "('g, 'h) lib \<Rightarrow> string \<times> int \<times> int \<times> real \<times> string \<times> int \<times> int \<Rightarrow> 'g \<Rightarrow> real \<times> 'g" where
  "gen_predicted_prob L row g =
     (let (grp, credit, income, dti, employment, history, label) = row;
          base_pred = real_of_int (credit - 300) / 550;
          income_pred = min 1.0 (real_of_int income / 100000);
          dti_pred = 1.0 - dti;
          emp_pred =
            (if employment = ''Employed'' then 1.0
             else if employment = ''Self-employed'' then 0.8 else 0.5);
          hist_pred = min 1.0 (real_of_int history / 10);
          model_prob = base_pred * 0.35 + income_pred * 0.25 + dti_pred * 0.2 +
                       emp_pred * 0.1 + hist_pred * 0.1;
          (noise, g) = np_real L (Normal 0 0.1) g;
          model_prob = model_prob + noise;
          model_prob =
            (if grp = ''Region_North'' then model_prob * 1.08
             else if grp = ''Region_South'' then model_prob * 0.92
             else model_prob);
          (model_prob, g) =
            (if label = 1 then
               let (b, g) = np_real L (Beta 6 2) g in (model_prob * 0.7 + b * 0.3, g)
             else
               let (b, g) = np_real L (Beta 2 6) g in (model_prob * 0.7 + b * 0.3, g));
          model_prob = clip model_prob 0.01 0.99
      in (model_prob, g))"

text \<open>\<open>dt + timedelta(days=d, hours=h, minutes=m, seconds=s)\<close> with int arguments.\<close>

definition add_timedelta_int :: "int \<Rightarrow> int \<Rightarrow> int \<Rightarrow> int \<Rightarrow> datetime \<Rightarrow> py_error + datetime" where
  "add_timedelta_int d h m s dt =
     (let secs = h * 3600 + m * 60 + s + int (hour dt * 3600 + minute dt * 60 + second dt)
      in case add_days (d + secs div 86400) dt of
           Inl e \<Rightarrow> Inl e
         | Inr dt' \<Rightarrow>
             Inr (dt'\<lparr>hour := nat (secs mod 86400 div 3600),
                      minute := nat (secs mod 3600 div 60),
                      second := nat (secs mod 60)\<rparr>))"

text \<open>Lines 226-234: the timestamp of row \<open>i\<close>.\<close>

definition gen_timestamp ::
  "('g, 'h) lib \<Rightarrow> datetime \<Rightarrow> int \<Rightarrow> int \<Rightarrow> 'g \<Rightarrow> (py_error + datetime) \<times> 'g" where
  "gen_timestamp L start_date total_days i g =
     (if total_days = 0 then (Inl ZeroDivisionError, g)
      else
        let days_offset = i mod total_days;
            (hours_offset, g) = np_int L (Randint 0 24) g;
            (minutes_offset, g) = np_int L (Randint 0 60) g;
            (seconds_offset, g) = np_int L (Randint 0 60) g
        in (add_timedelta_int days_offset hours_offset minutes_offset seconds_offset start_date, g))"

text \<open>The loop of lines 226-234 stops at the first exception.\<close>

fun gen_timestamps ::
  "('g, 'h) lib \<Rightarrow> datetime \<Rightarrow> int \<Rightarrow> int list \<Rightarrow> 'g \<Rightarrow> py_error + datetime list" where
  "gen_timestamps L start_date total_days [] g = Inr []"
| "gen_timestamps L start_date total_days (i # is) g =
     (case gen_timestamp L start_date total_days i g of
        (Inl e, g) \<Rightarrow> Inl e
      | (Inr ts, g) \<Rightarrow>
          (case gen_timestamps L start_date total_days is g of
             Inl e \<Rightarrow> Inl e
           | Inr tss \<Rightarrow> Inr (ts # tss)))"

definition date_of :: "datetime \<Rightarrow> nat \<times> nat \<times> nat" where
  "date_of dt = (year dt, month dt, day dt)"

definition strftime_date :: "nat \<times> nat \<times> nat \<Rightarrow> string" where
  "strftime_date d = (case d of (y, m, dd) \<Rightarrow> zpad 4 y @ ''-'' @ zpad 2 m @ ''-'' @ zpad 2 dd)"

text \<open>Lines 202-263: the DataFrame, row by row from the columns.\<close>

definition build_df ::
  "string list \<Rightarrow> int list \<Rightarrow> int list \<Rightarrow> int list \<Rightarrow> string list \<Rightarrow> int list \<Rightarrow> real list \<Rightarrow>
     int list \<Rightarrow> int list \<Rightarrow> int list \<Rightarrow> int list \<Rightarrow> real list \<Rightarrow> int list \<Rightarrow> datetime list \<Rightarrow>
     nat \<Rightarrow> application list" where
  "build_df groups credit income ages employment job_years dti cards history
     actual_labels predicted_labels predicted_probs valid timestamps n =
     map (\<lambda>i. \<lparr>partition_date = date_of (timestamps ! i),
                 timestamp = timestamps ! i,
                 application_id = int i + 1,
                 region = groups ! i,
                 actual_label = actual_labels ! i,
                 predicted_label = predicted_labels ! i,
                 predicted_probability = predicted_probs ! i,
                 is_valid_application = valid ! i,
                 credit_score = credit ! i,
                 annual_income = income ! i,
                 age = ages ! i,
                 employment_status = employment ! i,
                 years_at_job = job_years ! i,
                 debt_to_income_ratio = dti ! i,
                 num_credit_cards = cards ! i,
                 years_credit_history = history ! i\<rparr>) [0..<n]"

text \<open>
  Lines 285-310: one parquet file for each partition date, in the order of \<open>groupby\<close>
  (ascending), holding the rows of that date.
\<close>

definition parquet_path :: "path \<Rightarrow> nat \<times> nat \<times> nat \<Rightarrow> path" where
  "parquet_path output_path d =
     output_path @ [strftime_date d, ''data-'' @ strftime_date d @ ''.parquet'']"

fun write_partitions ::
  "path \<Rightarrow> application list \<Rightarrow> (nat \<times> nat \<times> nat) list \<Rightarrow> application list filesystem \<Rightarrow>
     application list filesystem" where
  "write_partitions output_path df [] fs = fs"
| "write_partitions output_path df (d # ds) fs =
     write_partitions output_path df ds
       (fs(parquet_path output_path d \<mapsto> filter (\<lambda>r. partition_date r = d) df))"

text \<open>
  \<open>generate_dataset\<close>, lines 39-312. Besides its arguments the function reads the clock
  (\<open>now\<close>) and the file system, and returns the DataFrame and the file system it leaves.
  \<open>df.iloc[0]\<close> raises \<open>IndexError\<close> on an empty DataFrame.
\<close>

definition cc_generate_dataset ::
  "('g, 'h) lib \<Rightarrow> int \<Rightarrow> path option \<Rightarrow> int \<Rightarrow> int \<Rightarrow> int \<Rightarrow> datetime \<Rightarrow>
     application list filesystem \<Rightarrow> py_error + (application list \<times> application list filesystem)" where
  "cc_generate_dataset L n_samples output_dir seed past_days future_days now fs =
     (case np_seed L seed of
        Inl e \<Rightarrow> Inl e
      | Inr g \<Rightarrow>
     (if n_samples < 0 then Inl (ValueError ''negative dimensions are not allowed'')
      else
        let n = nat n_samples;
            ((groups, credit, income, ages, employment, job_years, dti, cards, history), g) =
              gen_columns L n g;
            (actual_labels, g) =
              map_state (gen_actual_label L)
                (zip groups (zip credit (zip income (zip dti (zip employment history))))) g;
            (predicted_probs, g) =
              map_state (gen_predicted_prob L)
                (zip groups (zip credit (zip income (zip dti (zip employment
                   (zip history actual_labels)))))) g;
            threshold = 0.5;
            predicted_labels = map (\<lambda>p. if p \<ge> threshold then 1 else 0) predicted_probs;
            (valid, g) = draws (np_choice L [0, 1] [0.01, 0.99]) n g;
            today = midnight now
        in case add_days (- past_days) today of
             Inl e \<Rightarrow> Inl e
           | Inr start_date \<Rightarrow>
        (let total_days = past_days + future_days + 1
         in case gen_timestamps L start_date total_days (map int [0..<n]) g of
             Inl e \<Rightarrow> Inl e
           | Inr timestamps \<Rightarrow>
        (let df = build_df groups credit income ages employment job_years dti cards history
                    actual_labels predicted_labels predicted_probs valid timestamps n
         in if df = [] then Inl IndexError
            else
              (case output_dir of
                 None \<Rightarrow> Inr (df, fs)
               | Some output_path \<Rightarrow>
                   Inr (df, write_partitions output_path df
                              (sort (remdups (map partition_date df))) fs))))))"

section \<open>The transaction-category generator\<close>













record txn_row =
  timestamp :: datetime
  transaction_id :: string
  account_id :: string
  customer_segment :: string
  channel :: string
  merchant_type :: string
  transaction_amount :: real
  hour_of_day :: nat
  day_of_week :: nat
  ground_truth_category :: string
  predicted_category :: string
  prediction_confidence :: real
  pred_prob_groceries :: real
  pred_prob_dining :: real
  pred_prob_travel :: real
  pred_prob_entertainment :: real
  pred_prob_utilities :: real
  pred_prob_healthcare :: real
  pred_prob_shopping :: real
  pred_prob_automotive :: real




text \<open>Sequencing of computations that can raise.\<close>

definition bind :: "py_error + 'a \<Rightarrow> ('a \<Rightarrow> py_error + 'b) \<Rightarrow> py_error + 'b" where
  "bind m f = (case m of Inl e \<Rightarrow> Inl e | Inr x \<Rightarrow> f x)"







record txn_stats0 =
  total_transactions :: int
  correct_predictions :: int
  category_counts :: "(string \<times> int) list"
  files_created :: int
  date_range :: string







section \<open>The onboarding scripts\<close>

text \<open>
  \<open>script automation/onboarding/add-fraud-model-aggregations.py\<close> and
  \<open>add-custom-aggregations.py\<close>. The objects of the vendor SDK are records; what the
  platform answers to each call of a run is the environment of the run.
\<close>

record column =
  column_id :: string
  source_name :: string

record dataset =
  dataset_id :: string
  dataset_name :: string
  columns :: "column list"

datatype arg_value = StrValue string | FloatValue real | ListValue "string list"

record metrics_arg_spec =
  arg_key :: string
  arg_value :: arg_value

record aggregation_spec =
  aggregation_id :: string
  aggregation_init_args :: "metrics_arg_spec list"
  aggregation_args :: "metrics_arg_spec list"

record model =
  model_name :: string
  datasets :: "string list"
  aggregation_specs :: "aggregation_spec list"

definition MetricsArgSpec :: "string \<Rightarrow> arg_value \<Rightarrow> metrics_arg_spec" where
  "MetricsArgSpec k v = \<lparr>arg_key = k, arg_value = v\<rparr>"

definition AggregationSpec :: "string \<Rightarrow> metrics_arg_spec list \<Rightarrow> metrics_arg_spec list \<Rightarrow> aggregation_spec" where
  "AggregationSpec i init args =
     \<lparr>aggregation_id = i, aggregation_init_args = init, aggregation_args = args\<rparr>"

text \<open>Lines 28-33 (both scripts): the id of the first column of that name.\<close>

fun find_column :: "column list \<Rightarrow> string \<Rightarrow> py_error + string" where
  "find_column [] col_name =
     Inl (ValueError (''Column '' @ [CHR 0x27] @ col_name @ [CHR 0x27] @ '' not found in dataset schema''))"
| "find_column (col # cols) col_name =
     (if source_name col = col_name then Inr (column_id col) else find_column cols col_name)"

definition column_id_from_col_name :: "dataset \<Rightarrow> string \<Rightarrow> py_error + string" where
  "column_id_from_col_name ds col_name = find_column (columns ds) col_name"

text \<open>\<open>try: x = column_id_from_col_name(...) except ValueError: x = None\<close>\<close>

definition optional_column :: "dataset \<Rightarrow> string \<Rightarrow> string option" where
  "optional_column ds col_name =
     (case column_id_from_col_name ds col_name of Inl e \<Rightarrow> None | Inr i \<Rightarrow> Some i)"

definition column_spec :: "string \<Rightarrow> dataset \<Rightarrow> string \<Rightarrow> string \<Rightarrow> string \<Rightarrow> aggregation_spec" where
  "column_spec agg ds timestamp_col_id key col_id =
     AggregationSpec agg []
       [MetricsArgSpec ''dataset'' (StrValue (dataset_id ds)),
        MetricsArgSpec ''timestamp_col'' (StrValue timestamp_col_id),
        MetricsArgSpec key (StrValue col_id)]"

text \<open>\<open>gen_fraud_model_aggregations\<close>, lines 36-209 of add-fraud-model-aggregations.py.\<close>

definition gen_fraud_model_aggregations :: "dataset \<Rightarrow> py_error + aggregation_spec list" where
  "gen_fraud_model_aggregations ds =
     bind (column_id_from_col_name ds ''timestamp'') (\<lambda>timestamp_col_id.
     bind (column_id_from_col_name ds ''fraud_pred'') (\<lambda>fraud_pred_col_id.
     bind (column_id_from_col_name ds ''is_fraud'') (\<lambda>is_fraud_col_id.
     bind (column_id_from_col_name ds ''distance_from_home_km'') (\<lambda>distance_col_id.
     bind (column_id_from_col_name ds ''tenure_months'') (\<lambda>tenure_col_id.
       let numeric_cols = [fraud_pred_col_id, is_fraud_col_id, distance_col_id, tenure_col_id];
           numeric_cols = (case optional_column ds ''transaction_amount'' of
                             Some c \<Rightarrow> numeric_cols @ [c] | None \<Rightarrow> numeric_cols);
           numeric_cols = (case optional_column ds ''merchant_risk_score'' of
                             Some c \<Rightarrow> numeric_cols @ [c] | None \<Rightarrow> numeric_cols)
       in
     bind (column_id_from_col_name ds ''customer_segment'') (\<lambda>customer_segment_col_id.
     bind (column_id_from_col_name ds ''channel'') (\<lambda>channel_col_id.
     bind (column_id_from_col_name ds ''region'') (\<lambda>region_col_id.
     bind (column_id_from_col_name ds ''risk_rank'') (\<lambda>risk_rank_col_id.
       let categorical_cols =
             [customer_segment_col_id, channel_col_id, region_col_id, risk_rank_col_id];
           specs = [AggregationSpec ''00000000-0000-0000-0000-00000000000a'' []
                      [MetricsArgSpec ''dataset'' (StrValue (dataset_id ds)),
                       MetricsArgSpec ''timestamp_col'' (StrValue timestamp_col_id)]];
           specs = specs @
             map (column_spec ''00000000-0000-0000-0000-00000000000f'' ds timestamp_col_id ''numeric_col'')
               [fraud_pred_col_id, is_fraud_col_id];
           specs = specs @
             map (column_spec ''00000000-0000-0000-0000-00000000000d'' ds timestamp_col_id ''numeric_col'')
               numeric_cols;
           specs = specs @
             map (column_spec ''00000000-0000-0000-0000-00000000000c'' ds timestamp_col_id ''categorical_col'')
               categorical_cols;
           specs = specs @
             [AggregationSpec ''00000000-0000-0000-0000-00000000001e'' []
                [MetricsArgSpec ''dataset'' (StrValue (dataset_id ds)),
                 MetricsArgSpec ''timestamp_col'' (StrValue timestamp_col_id),
                 MetricsArgSpec ''prediction_col'' (StrValue fraud_pred_col_id),
                 MetricsArgSpec ''gt_values_col'' (StrValue is_fraud_col_id),
                 MetricsArgSpec ''threshold'' (FloatValue 0.5),
                 MetricsArgSpec ''segmentation_cols'' (ListValue [region_col_id, risk_rank_col_id])]];
           specs = specs @
             [AggregationSpec ''00000000-0000-0000-0000-000000000020'' []
                [MetricsArgSpec ''dataset'' (StrValue (dataset_id ds)),
                 MetricsArgSpec ''timestamp_col'' (StrValue timestamp_col_id),
                 MetricsArgSpec ''prediction_col'' (StrValue fraud_pred_col_id),
                 MetricsArgSpec ''threshold'' (FloatValue 0.5),
                 MetricsArgSpec ''true_label'' (StrValue ''Fraud''),
                 MetricsArgSpec ''false_label'' (StrValue ''Authorized''),
                 MetricsArgSpec ''segmentation_cols'' (ListValue [risk_rank_col_id, region_col_id])]];
           all_tracked_cols = numeric_cols @ categorical_cols;
           specs = specs @
             map (column_spec ''00000000-0000-0000-0000-00000000000b'' ds timestamp_col_id ''nullable_col'')
               all_tracked_cols
       in Inr specs)))))))))"

text \<open>
  \<open>gen_custom_aggregations\<close>, lines 54-219 of add-custom-aggregations.py. An id that is
  the empty string is false in \<open>if prediction_col_id:\<close>.
\<close>

definition truthy :: "string option \<Rightarrow> bool" where
  "truthy x = (case x of None \<Rightarrow> False | Some v \<Rightarrow> v \<noteq> [])"

definition gen_custom_aggregations :: "dataset \<Rightarrow> py_error + aggregation_spec list" where
  "gen_custom_aggregations ds =
     bind (column_id_from_col_name ds ''timestamp'') (\<lambda>timestamp_col_id.
       let prediction_col_id = optional_column ds ''prediction'';
           confidence_col_id = optional_column ds ''confidence_score'';
           specs = [AggregationSpec ''00000000-0000-0000-0000-00000000000a'' []
                      [MetricsArgSpec ''dataset'' (StrValue (dataset_id ds)),
                       MetricsArgSpec ''timestamp_col'' (StrValue timestamp_col_id)]];
           specs = specs @
             map (\<lambda>col. column_spec ''00000000-0000-0000-0000-00000000000b'' ds timestamp_col_id
                          ''nullable_col'' (column_id col)) (columns ds);
           specs = (if truthy prediction_col_id then specs @
             [column_spec ''00000000-0000-0000-0000-00000000000d'' ds timestamp_col_id
                ''numeric_col'' (the prediction_col_id)] else specs);
           specs = (if truthy prediction_col_id then specs @
             [column_spec ''00000000-0000-0000-0000-00000000000f'' ds timestamp_col_id
                ''numeric_col'' (the prediction_col_id)] else specs);
           specs = (if truthy confidence_col_id then specs @
             [column_spec ''00000000-0000-0000-0000-00000000000d'' ds timestamp_col_id
                ''numeric_col'' (the confidence_col_id)] else specs);
           specs = (if truthy prediction_col_id then specs @
             [AggregationSpec ''00000000-0000-0000-0000-000000000020'' []
                [MetricsArgSpec ''dataset'' (StrValue (dataset_id ds)),
                 MetricsArgSpec ''timestamp_col'' (StrValue timestamp_col_id),
                 MetricsArgSpec ''prediction_col'' (StrValue (the prediction_col_id)),
                 MetricsArgSpec ''threshold'' (FloatValue 0.5),
                 MetricsArgSpec ''true_label'' (StrValue ''POSITIVE''),
                 MetricsArgSpec ''false_label'' (StrValue ''NEGATIVE'')]] else specs)
       in Inr specs)"

text \<open>
  The duplicate filter of both scripts (lines 253-268 and 257-274): an aggregation is
  kept when no existing one has the same \<open>aggregation_id\<close> and \<open>aggregation_args\<close>.
\<close>

fun spec_exists :: "aggregation_spec list \<Rightarrow> aggregation_spec \<Rightarrow> bool" where
  "spec_exists [] agg = False"
| "spec_exists (existing_agg # rest) agg =
     (if aggregation_id existing_agg = aggregation_id agg \<and>
         aggregation_args existing_agg = aggregation_args agg
      then True else spec_exists rest agg)"

fun aggregations_to_add :: "aggregation_spec list \<Rightarrow> aggregation_spec list \<Rightarrow> aggregation_spec list" where
  "aggregations_to_add existing [] = []"
| "aggregations_to_add existing (agg # new_aggregations) =
     (if \<not> spec_exists existing agg
      then agg # aggregations_to_add existing new_aggregations
      else aggregations_to_add existing new_aggregations)"

text \<open>
  The environment of a run: what \<open>authorize\<close>, \<open>get_model\<close>, \<open>get_dataset\<close>, \<open>input\<close> and
  \<open>put_model_metric_config\<close> do. \<open>get_model\<close> answers with the model the platform holds;
  a successful \<open>put_model_metric_config\<close> replaces its aggregation specs.
\<close>

record env =
  authorize :: "py_error option"
  get_model :: "py_error option"
  get_dataset :: "string \<Rightarrow> py_error + dataset"
  user_input :: "py_error + string"
  put_model_metric_config :: "py_error option"

text \<open>How a run of \<open>main\<close> that raises nothing ends, by the last message it prints.\<close>

datatype outcome =
    MissingColumns string
  | NothingToAdd
  | Cancelled
  | Updated

definition raise_if :: "py_error option \<Rightarrow> py_error + unit" where
  "raise_if e = (case e of None \<Rightarrow> Inr () | Some x \<Rightarrow> Inl x)"

definition lower :: "string \<Rightarrow> string" where
  "lower s = map (\<lambda>c. if (65::nat) \<le> of_char c \<and> of_char c \<le> (90::nat)
                       then char_of (of_char c + (32::nat)) else c) s"

text \<open>Lines 253-317 of add-fraud-model-aggregations.py, shared with lines 252-314 of
  add-custom-aggregations.py: filter, confirm, apply.\<close>

definition apply_aggregations ::
  "env \<Rightarrow> model \<Rightarrow> aggregation_spec list \<Rightarrow> (py_error + outcome) \<times> model" where
  "apply_aggregations E m new_aggregations =
     (let to_add = aggregations_to_add (aggregation_specs m) new_aggregations
      in if length to_add = 0 then (Inr NothingToAdd, m)
         else
           let all_aggregations = aggregation_specs m @ to_add
           in case user_input E of
                Inl e \<Rightarrow> (Inl e, m)
              | Inr response \<Rightarrow>
                  if lower response \<noteq> ''yes'' then (Inr Cancelled, m)
                  else (case put_model_metric_config E of
                          Some e \<Rightarrow> (Inl e, m)
                        | None \<Rightarrow> (Inr Updated, m\<lparr>aggregation_specs := all_aggregations\<rparr>)))"

text \<open>Lines 215-234 (both scripts): connect, fetch the model and its first dataset.\<close>

definition fetch_dataset :: "env \<Rightarrow> model \<Rightarrow> py_error + dataset" where
  "fetch_dataset E m =
     bind (raise_if (authorize E)) (\<lambda>_.
     bind (raise_if (get_model E)) (\<lambda>_.
       if datasets m = [] then Inl (ValueError ''Model has no associated datasets'')
       else get_dataset E (hd (datasets m))))"

text \<open>
  \<open>main\<close> of add-fraud-model-aggregations.py, lines 212-317, on the model \<open>m\<close> the platform
  holds: what it raises or how it ends, and the model the platform holds afterwards.
\<close>

definition fraud_main :: "env \<Rightarrow> model \<Rightarrow> (py_error + outcome) \<times> model" where
  "fraud_main E m =
     (case fetch_dataset E m of
        Inl e \<Rightarrow> (Inl e, m)
      | Inr ds \<Rightarrow>
          (case gen_fraud_model_aggregations ds of
             Inl e \<Rightarrow> (if is_ValueError e then (Inr (MissingColumns (case e of ValueError msg \<Rightarrow> msg | _ \<Rightarrow> [])), m)
                        else (Inl e, m))
           | Inr new_aggregations \<Rightarrow> apply_aggregations E m new_aggregations))"

text \<open>\<open>main\<close> of add-custom-aggregations.py, lines 222-314.\<close>

definition custom_main :: "env \<Rightarrow> model \<Rightarrow> (py_error + outcome) \<times> model" where
  "custom_main E m =
     (case fetch_dataset E m of
        Inl e \<Rightarrow> (Inl e, m)
      | Inr ds \<Rightarrow>
          (case gen_custom_aggregations ds of
             Inl e \<Rightarrow> (Inl e, m)
           | Inr new_aggregations \<Rightarrow> apply_aggregations E m new_aggregations))"

text \<open>
  What a script run leaves: the exception that leaves the script uncaught (if any), the
  diagnostic its handler printed (if any), how \<open>main\<close> ended (if it raised nothing) and
  the model the platform holds.
\<close>

datatype diagnostic = ConfigurationError string | UnexpectedError string

record run =
  uncaught :: "py_error option"
  printed :: "diagnostic option"
  ended :: "outcome option"
  platform :: model

fun message :: "py_error \<Rightarrow> string" where
  "message (ValueError msg) = msg"
| "message (OtherException msg) = msg"
| "message _ = []"

text \<open>Lines 320-329 of add-fraud-model-aggregations.py: the handler prints and swallows.\<close>

definition fraud_script :: "env \<Rightarrow> model \<Rightarrow> run" where
  "fraud_script E m =
     (case fraud_main E m of
        (Inr out, m') \<Rightarrow> \<lparr>uncaught = None, printed = None, ended = Some out, platform = m'\<rparr>
      | (Inl e, m') \<Rightarrow>
          if is_ValueError e
          then \<lparr>uncaught = None, printed = Some (ConfigurationError (message e)), ended = None,
                platform = m'\<rparr>
          else if is_Exception e
          then \<lparr>uncaught = None, printed = Some (UnexpectedError (message e)), ended = None,
                platform = m'\<rparr>
          else \<lparr>uncaught = Some e, printed = None, ended = None, platform = m'\<rparr>)"

text \<open>
  Lines 317-327 of add-custom-aggregations.py: the handler of \<open>Exception\<close> prints and
  raises the exception again.
\<close>

definition custom_script :: "env \<Rightarrow> model \<Rightarrow> run" where
  "custom_script E m =
     (case custom_main E m of
        (Inr out, m') \<Rightarrow> \<lparr>uncaught = None, printed = None, ended = Some out, platform = m'\<rparr>
      | (Inl e, m') \<Rightarrow>
          if is_ValueError e
          then \<lparr>uncaught = None, printed = Some (ConfigurationError (message e)), ended = None,
                platform = m'\<rparr>
          else if is_Exception e
          then \<lparr>uncaught = Some e, printed = Some (UnexpectedError (message e)), ended = None,
                platform = m'\<rparr>
          else \<lparr>uncaught = Some e, printed = None, ended = None, platform = m'\<rparr>)"

section \<open>Definitions used to state the properties\<close>

text \<open>The fraud probability as the specification words it: a product of factors, capped.\<close>

definition fraud_prob_spec :: "string \<Rightarrow> real \<Rightarrow> real \<Rightarrow> real \<Rightarrow> string \<Rightarrow> real" where
  "fraud_prob_spec segment amount distance_from_home merchant_risk chan =
     min 0.30
       (0.05 * (if segment = ''new_to_bank'' then 1.5 else 1)
             * (if amount > 500 then 1.3 else 1)
             * (if distance_from_home > 50 then 1.4 else 1)
             * (if merchant_risk > 0.5 then 1.2 else 1)
             * (if chan = ''atm'' then 1.3 else 1))"

text \<open>The documented ranges of a card-fraud transaction and of a credit-card application.\<close>

definition card_in_range :: "transaction \<Rightarrow> bool" where
  "card_in_range t =
     (1 \<le> txn_amount t \<and> txn_amount t \<le> 10000 \<and>
      0 \<le> distance_from_home_km t \<and> distance_from_home_km t \<le> 1000 \<and>
      0 \<le> merchant_risk_score t \<and> merchant_risk_score t \<le> 1 \<and>
      0 \<le> fraud_score t \<and> fraud_score t \<le> 1 \<and>
      (is_fraud t = 0 \<or> is_fraud t = 1) \<and>
      (fraud_pred t = 0 \<or> fraud_pred t = 1) \<and>
      1 \<le> risk_rank t \<and> risk_rank t \<le> 5)"

definition cc_in_range :: "application \<Rightarrow> bool" where
  "cc_in_range r =
     (300 \<le> credit_score r \<and> credit_score r \<le> 850 \<and>
      20000 \<le> annual_income r \<and> annual_income r \<le> 200000 \<and>
      18 \<le> age r \<and> age r \<le> 75 \<and>
      0 \<le> debt_to_income_ratio r \<and> debt_to_income_ratio r \<le> 0.8 \<and>
      0.01 \<le> predicted_probability r \<and> predicted_probability r \<le> 0.99)"

text \<open>
  The hours from \<open>c\<close> to \<open>e\<close> inclusive: the valid datetimes between the two that are a
  whole number of hours after \<open>c\<close>.
\<close>

definition hours_between :: "datetime \<Rightarrow> datetime \<Rightarrow> datetime set" where
  "hours_between c e =
     {h. valid_datetime h \<and> minute h = minute c \<and> second h = second c \<and> dt_le c h \<and> dt_le h e}"

subsection \<open>A library of constant draws\<close>

text \<open>
  A degenerate instance of the libraries, used to run the model on concrete inputs: every
  draw returns a fixed value in the range of its distribution, and \<open>md5_uuid\<close> returns
  its argument.
\<close>

fun const_real :: "dist \<Rightarrow> real" where
  "const_real (Lognormal m s) = 50"
| "const_real (Exponential s) = 5"
| "const_real (Beta a b) = 1 / 2"
| "const_real (Gamma k s) = 3"
| "const_real (Normal m s) = m"
| "const_real (Uniform a b) = a"
| "const_real Random = 1 / 2"

fun const_int :: "idist \<Rightarrow> int" where
  "const_int (Choice ps) = 0"
| "const_int (Randint lo hi) = lo"
| "const_int (Poisson l) = 2"
| "const_int (Binomial n p) = 0"

definition const_lib :: "(nat, nat) lib" where
  "const_lib =
     \<lparr>np_seed = (\<lambda>s. if 0 \<le> s \<and> s < 2 ^ 32 then Inr (nat s)
                     else Inl (ValueError ''Seed must be between 0 and 2**32 - 1'')),
      np_real = (\<lambda>d g. (const_real d, Suc g)),
      np_int = (\<lambda>d g. (const_int d, Suc g)),
      np_dirichlet = (\<lambda>alpha g. (map (\<lambda>a. a / sum_list alpha) alpha, Suc g)),
      py_seed = (\<lambda>s. nat \<bar>s\<bar>),
      py_randint = (\<lambda>lo hi h. (lo, Suc h)),
      py_index = (\<lambda>n h. (0, Suc h)),
      py_sample = (\<lambda>lo hi k h. (map (\<lambda>i. lo + int i) [0..<k], Suc h)),
      md5_uuid = (\<lambda>s. s)\<rparr>"

definition now0 :: datetime where
  "now0 = \<lparr>year = 2025, month = 11, day = 1, hour = 13, minute = 5, second = 9\<rparr>"

definition nov1 :: datetime where
  "nov1 = \<lparr>year = 2025, month = 11, day = 1, hour = 0, minute = 0, second = 0\<rparr>"



section \<open>Rounding, clipping and truncation\<close>

lemma bind_simps [simp]:
  "bind (Inl e) f = Inl e" "bind (Inr x) f = f x"
  by (simp_all add: bind_def)

lemma py_round_mono_int:
  assumes "of_int k \<le> x * 10 ^ n"
  shows "of_int k / 10 ^ n \<le> py_round x n"
proof -
  have "k \<le> \<lfloor>x * 10 ^ n\<rfloor>" using assms by (simp add: le_floor_iff)
  then have "(of_int k :: real) \<le> of_int (if x * 10 ^ n - of_int \<lfloor>x * 10 ^ n\<rfloor> < 1 / 2 then \<lfloor>x * 10 ^ n\<rfloor>
                 else if 1 / 2 < x * 10 ^ n - of_int \<lfloor>x * 10 ^ n\<rfloor> then \<lfloor>x * 10 ^ n\<rfloor> + 1
                 else if even \<lfloor>x * 10 ^ n\<rfloor> then \<lfloor>x * 10 ^ n\<rfloor> else \<lfloor>x * 10 ^ n\<rfloor> + 1)"
    by auto
  then show ?thesis
    by (simp add: py_round_def Let_def divide_right_mono)
qed

lemma py_round_le_int:
  assumes "x * 10 ^ n \<le> of_int k"
  shows "py_round x n \<le> of_int k / 10 ^ n"
proof -
  let ?y = "x * 10 ^ n"
  have fl: "\<lfloor>?y\<rfloor> \<le> k" using assms by (simp add: floor_le_iff)
  have "(if ?y - of_int \<lfloor>?y\<rfloor> < 1 / 2 then \<lfloor>?y\<rfloor>
         else if 1 / 2 < ?y - of_int \<lfloor>?y\<rfloor> then \<lfloor>?y\<rfloor> + 1
         else if even \<lfloor>?y\<rfloor> then \<lfloor>?y\<rfloor> else \<lfloor>?y\<rfloor> + 1) \<le> k"
  proof (cases "\<lfloor>?y\<rfloor> = k")
    case True
    then have "?y - of_int \<lfloor>?y\<rfloor> \<le> 0" using assms by simp
    then show ?thesis using True by auto
  next
    case False
    then have "\<lfloor>?y\<rfloor> + 1 \<le> k" using fl by linarith
    then show ?thesis using fl by auto
  qed
  then have "(of_int (if ?y - of_int \<lfloor>?y\<rfloor> < 1 / 2 then \<lfloor>?y\<rfloor>
         else if 1 / 2 < ?y - of_int \<lfloor>?y\<rfloor> then \<lfloor>?y\<rfloor> + 1
         else if even \<lfloor>?y\<rfloor> then \<lfloor>?y\<rfloor> else \<lfloor>?y\<rfloor> + 1) :: real) \<le> of_int k"
    by (simp only: of_int_le_iff)
  then show ?thesis
    by (simp add: py_round_def Let_def divide_right_mono)
qed

lemma py_round_nonneg: "0 \<le> x \<Longrightarrow> 0 \<le> py_round x n"
  using py_round_mono_int[of 0 x n] by simp

lemma py_round_le_one: "x \<le> 1 \<Longrightarrow> py_round x n \<le> 1"
  using py_round_le_int[of x n "10 ^ n"] by (simp add: mult_left_le_one_le)

section \<open>Records of the generators\<close>

lemma np_soundD: "np_sound L \<Longrightarrow> in_support d (fst (np_real L d g))"
  by (simp add: np_sound_def)

lemma gen_features_ranges:
  assumes "np_sound L"
    and "gen_features L g = ((seg, ch, reg, amt, d, mrs, de, ten), g')"
  shows "1 \<le> amt \<and> amt \<le> 10000 \<and> 0 \<le> d \<and> d \<le> 1000 \<and> 0 \<le> mrs \<and> mrs \<le> 1"
proof -
  have e: "0 \<le> fst (np_real L (Exponential 10) g1)" for g1
    using np_soundD[OF assms(1), of "Exponential 10" g1] by simp
  have b: "0 \<le> fst (np_real L (Beta 2 8) g1) \<and> fst (np_real L (Beta 2 8) g1) \<le> 1" for g1
    using np_soundD[OF assms(1), of "Beta 2 8" g1] by simp
  show ?thesis
    using assms(2)
    by (auto simp: gen_features_def Let_def split_beta py_round_nonneg py_round_le_one e b
        min_def max_def)
qed

lemma risk_rank_of_range: "1 \<le> risk_rank_of s \<and> risk_rank_of s \<le> 5"
  by (simp add: risk_rank_of_def)

lemma gen_fraud_score_range:
  "0 \<le> fst (gen_fraud_score L f g) \<and> fst (gen_fraud_score L f g) \<le> 1"
  by (simp add: gen_fraud_score_def Let_def split_beta)

lemma gen_is_fraud_range:
  "fst (gen_is_fraud L seg amt d mrs ch g) = 0 \<or> fst (gen_is_fraud L seg amt d mrs ch g) = 1"
  by (simp add: gen_is_fraud_def Let_def split_beta)

lemma gen_transaction_in_range:
  assumes "np_sound L"
  shows "card_in_range (fst (gen_transaction L dt ts accts custs rng))"
proof -
  obtain g h where rng: "rng = (g, h)" by (cases rng)
  obtain x g' where x: "gen_features L g = (x, g')" by (rule prod.exhaust)
  obtain seg ch reg amt y where y: "x = (seg, ch, reg, amt, y)" by (rule prod_cases5)
  obtain d mrs de ten where "y = (d, mrs, de, ten)" by (rule prod_cases4)
  with x y have f: "gen_features L g = ((seg, ch, reg, amt, d, mrs, de, ten), g')" by simp
  note r = gen_features_ranges[OF assms f]
  show ?thesis
    using r gen_is_fraud_range[of L seg amt d mrs ch g']
      gen_fraud_score_range[of L "fst (gen_is_fraud L seg amt d mrs ch g')" "snd (gen_is_fraud L seg amt d mrs ch g')"]
      risk_rank_of_range
    by (simp add: gen_transaction_def card_in_range_def rng f Let_def split_beta)
qed

lemma gen_transaction_pred:
  "fraud_pred (fst (gen_transaction L dt ts accts custs rng)) =
     (if fraud_score (fst (gen_transaction L dt ts accts custs rng)) \<ge> 0.5 then 1 else 0)"
  by (simp add: gen_transaction_def Let_def split_beta)


lemma draws_length [simp]: "length (fst (draws f n g)) = n"
  by (induction n arbitrary: g) (simp_all add: split_beta Let_def)

lemma map_state_length [simp]: "length (fst (map_state f xs g)) = length xs"
  by (induction xs arbitrary: g) (simp_all add: split_beta Let_def)

lemma map_state_all:
  assumes "\<And>x g. P (fst (f x g))"
  shows "\<forall>y \<in> set (fst (map_state f xs g)). P y"
  by (induction xs arbitrary: g) (simp_all add: split_beta Let_def assms)

lemma trunc_range:
  "real_of_int lo \<le> x \<Longrightarrow> x \<le> real_of_int hi \<Longrightarrow> 0 \<le> lo \<Longrightarrow> lo \<le> trunc x \<and> trunc x \<le> hi"
  by (auto simp: trunc_def le_floor_iff floor_le_iff)

lemma clip_range: "lo \<le> hi \<Longrightarrow> lo \<le> clip x lo hi \<and> clip x lo hi \<le> hi"
  by (auto simp: clip_def min_def max_def)

lemma gen_columns_ranges:
  assumes "gen_columns L n g = ((groups, credit, income, ages, employment, job_years, dti, cards, history), g')"
  shows "length groups = n \<and> length credit = n \<and> length income = n \<and> length ages = n \<and>
         length employment = n \<and> length job_years = n \<and> length dti = n \<and> length cards = n \<and>
         length history = n \<and>
         (\<forall>x \<in> set credit. 300 \<le> x \<and> x \<le> 850) \<and>
         (\<forall>x \<in> set income. 20000 \<le> x \<and> x \<le> 200000) \<and>
         (\<forall>x \<in> set ages. 18 \<le> x \<and> x \<le> 75) \<and>
         (\<forall>x \<in> set dti. 0 \<le> x \<and> x \<le> 0.8)"
proof -
  have t: "300 \<le> trunc (clip x 300 850) \<and> trunc (clip x 300 850) \<le> 850" for x :: real
    using trunc_range[of 300 "clip x 300 850" 850] clip_range[of 300 850 x] by simp
  have c: "lo \<le> hi \<Longrightarrow> lo \<le> clip x lo hi \<and> clip x lo hi \<le> hi" for lo hi x :: int
    by (rule clip_range)
  have d: "0 \<le> clip x 0 (4/5) \<and> clip x 0 (4/5) * 5 \<le> 4" for x :: real
    using clip_range[of 0 "4/5" x] by simp
  show ?thesis
    using assms
    apply (simp add: gen_columns_def Let_def split_beta)
    apply (elim conjE)
    apply (intro conjI)
    apply (auto simp: t c d dest!: set_zip_leftD set_zip_rightD)
    done
qed

lemma gen_predicted_prob_range:
  "0.01 \<le> fst (gen_predicted_prob L row g) \<and> fst (gen_predicted_prob L row g) \<le> 0.99"
  using clip_range[of "0.01::real" "0.99"]
  by (simp add: gen_predicted_prob_def Let_def split_beta)

section \<open>The order of datetimes and the next hour\<close>

lemma dt_le_iff:
  "dt_le a b \<longleftrightarrow>
     year a < year b \<or> year a = year b \<and>
     (month a < month b \<or> month a = month b \<and>
     (day a < day b \<or> day a = day b \<and>
     (hour a < hour b \<or> hour a = hour b \<and>
     (minute a < minute b \<or> minute a = minute b \<and> second a \<le> second b))))"
  by (auto simp: dt_le_def dt_key_def less_eq_prod_def less_prod_def)

lemma dt_le_refl [simp]: "dt_le a a"
  by (simp add: dt_le_def)

lemma dt_le_trans: "dt_le a b \<Longrightarrow> dt_le b c \<Longrightarrow> dt_le a c"
  unfolding dt_le_def by (rule order_trans)

lemma dt_le_antisym: "dt_le a b \<Longrightarrow> dt_le b a \<Longrightarrow> a = b"
  unfolding dt_le_def dt_key_def by (cases a, cases b) auto

lemma dt_le_total: "dt_le a b \<or> dt_le b a"
  unfolding dt_le_def by (rule linear)

lemma days_in_month_bounds: "28 \<le> days_in_month y m \<and> days_in_month y m \<le> 31"
  by (simp add: days_in_month_def)

text \<open>An hour on the clock: a valid datetime.\<close>

lemma add_hour_valid:
  assumes "valid_datetime c" "add_hour c = Inr c'"
  shows "valid_datetime c' \<and> minute c' = minute c \<and> second c' = second c"
  using assms days_in_month_bounds[of "year c" "month c + 1"] days_in_month_bounds[of "year c + 1" 1]
  by (auto simp: add_hour_def check_range_def next_day_def valid_datetime_def
      split: if_splits)

lemma add_hour_gt:
  assumes "add_hour c = Inr c'" "valid_datetime c"
  shows "dt_le c c' \<and> \<not> dt_le c' c"
  using assms
  by (auto simp: add_hour_def check_range_def next_day_def valid_datetime_def dt_le_iff
      split: if_splits)

lemma add_hour_succ:
  assumes "valid_datetime c" "valid_datetime h" "dt_le c h" "h \<noteq> c"
    "minute h = minute c" "second h = second c"
  shows "\<exists>c'. add_hour c = Inr c' \<and> dt_le c' h"
proof -
  have neq: "year c \<noteq> year h \<or> month c \<noteq> month h \<or> day c \<noteq> day h \<or> hour c \<noteq> hour h"
    using assms(4,5,6) by (cases c, cases h) auto
  show ?thesis
    using assms(1,2,3,5,6) neq
    by (auto simp: add_hour_def check_range_def next_day_def valid_datetime_def dt_le_iff
        split: if_splits)
qed

section \<open>Decimal formatting is injective\<close>

lemma parse_nat_append: "parse_nat acc (xs @ [c]) = parse_nat acc xs * 10 + digit_val c"
  by (induction xs arbitrary: acc) simp_all

lemma digit_val_digit_char: "d < 10 \<Longrightarrow> digit_val (digit_char d) = d"
  by (simp add: digit_val_def digit_char_def)

lemma parse_str_nat: "parse_nat 0 (str_nat n) = n"
proof (induction n rule: str_nat.induct)
  case (1 n)
  show ?case
  proof (cases "n < 10")
    case True
    then show ?thesis
      by (subst str_nat.simps) (simp add: digit_val_digit_char)
  next
    case False
    with 1 have "parse_nat 0 (str_nat (n div 10)) = n div 10" by simp
    with False show ?thesis
      by (subst str_nat.simps) (simp add: parse_nat_append digit_val_digit_char)
  qed
qed

lemma parse_zeros: "parse_nat 0 (replicate k CHR ''0'' @ xs) = parse_nat 0 xs"
  by (induction k) (simp_all add: digit_val_def)

lemma parse_zpad: "parse_nat 0 (zpad w n) = n"
  by (simp add: zpad_def parse_zeros parse_str_nat)

lemma str_nat_inj: "str_nat a = str_nat b \<Longrightarrow> a = b"
  by (metis parse_str_nat)

lemma zpad_inj: "zpad w a = zpad w b \<Longrightarrow> a = b"
  by (metis parse_zpad)

lemma file_path_inj:
  assumes "file_path dir a = file_path dir b"
  shows "year a = year b \<and> month a = month b \<and> day a = day b \<and> hour a = hour b"
  using assms by (auto simp: file_path_def dest: str_nat_inj zpad_inj)

section \<open>The hours of a date range\<close>

lemma finite_valid_datetime: "finite {h. valid_datetime h}"
proof -
  let ?mk = "\<lambda>(y, m, d, hh, mi, s). \<lparr>year = y, month = m, day = d, hour = hh, minute = mi, second = s\<rparr>"
  have "{h. valid_datetime h} \<subseteq>
        ?mk ` ({..9999} \<times> {..12} \<times> {..31} \<times> {..23} \<times> {..59} \<times> {..59})"
  proof
    fix h assume "h \<in> {h. valid_datetime h}"
    then have v: "valid_datetime h" by simp
    have h: "h = ?mk (year h, month h, day h, hour h, minute h, second h)" by simp
    have "(year h, month h, day h, hour h, minute h, second h)
            \<in> {..9999} \<times> {..12} \<times> {..31} \<times> {..23} \<times> {..59} \<times> {..59}"
      using v days_in_month_bounds[of "year h" "month h"] by (simp add: valid_datetime_def)
    then show "h \<in> ?mk ` ({..9999} \<times> {..12} \<times> {..31} \<times> {..23} \<times> {..59} \<times> {..59})"
      using h by (metis (no_types, lifting) image_eqI)
  qed
  then show ?thesis by (rule finite_subset) simp
qed

lemma finite_hours_between: "finite (hours_between c e)"
  by (rule finite_subset[OF _ finite_valid_datetime]) (auto simp: hours_between_def)

lemma hours_between_empty: "\<not> dt_le c e \<Longrightarrow> hours_between c e = {}"
  by (auto simp: hours_between_def dest: dt_le_trans)

lemma hours_between_step:
  assumes c: "valid_datetime c" and e: "valid_datetime e" and le: "dt_le c e"
    and al: "minute e = minute c" "second e = second c" and he: "hour e < 23"
  shows "\<exists>c'. add_hour c = Inr c' \<and> valid_datetime c' \<and> minute c' = minute c \<and>
           second c' = second c \<and> hours_between c e = insert c (hours_between c' e) \<and>
           c \<notin> hours_between c' e"
proof -
  have "\<exists>c'. add_hour c = Inr c'"
  proof (cases "e = c")
    case True
    with he c show ?thesis
      by (simp add: add_hour_def check_range_def valid_datetime_def)
  next
    case False
    with add_hour_succ[OF c e le _ al] show ?thesis by blast
  qed
  then obtain c' where c': "add_hour c = Inr c'" ..
  note v = add_hour_valid[OF c c']
  note gt = add_hour_gt[OF c' c]
  have "hours_between c e = insert c (hours_between c' e)"
  proof (intro set_eqI iffI)
    fix h assume h: "h \<in> hours_between c e"
    show "h \<in> insert c (hours_between c' e)"
    proof (cases "h = c")
      case False
      from h have "valid_datetime h" "dt_le c h" "minute h = minute c" "second h = second c"
        "dt_le h e"
        by (simp_all add: hours_between_def)
      with add_hour_succ[OF c this(1,2) False this(3,4)] c' v show ?thesis
        by (auto simp: hours_between_def)
    qed simp
  next
    fix h assume "h \<in> insert c (hours_between c' e)"
    then show "h \<in> hours_between c e"
      using c le v gt by (auto simp: hours_between_def dest: dt_le_trans)
  qed
  moreover have "c \<notin> hours_between c' e"
    using gt by (simp add: hours_between_def)
  ultimately show ?thesis using c' v by blast
qed

section \<open>The loops of the card-fraud generator\<close>

lemma gen_hour_spec:
  assumes P: "\<And>ts rng. P (length ts) (fst (gen_transaction L dt ts a cu rng))"
  shows "\<exists>new st' rng'. gen_hour L dt a cu n (ts0, st, rng) = (ts0 @ new, st', rng') \<and>
           length new = n \<and> (\<forall>k<n. P (length ts0 + k) (new ! k)) \<and>
           stats0.total_transactions st' = stats0.total_transactions st + int n \<and>
           stats0.files_created st' = stats0.files_created st \<and>
           stats0.date_range st' = stats0.date_range st"
proof (induction n arbitrary: ts0 st rng)
  case 0
  show ?case by simp
next
  case (Suc n)
  define t where "t = fst (gen_transaction L dt ts0 a cu rng)"
  define rng1 where "rng1 = snd (gen_transaction L dt ts0 a cu rng)"
  define st1 where "st1 = st\<lparr>stats0.total_transactions := stats0.total_transactions st + 1\<rparr>"
  define st2 where "st2 = (if is_fraud t = 1 then st1\<lparr>total_fraud := total_fraud st1 + 1\<rparr> else st1)"
  have step: "gen_hour L dt a cu (Suc n) (ts0, st, rng) = gen_hour L dt a cu n (ts0 @ [t], st2, rng1)"
    by (simp add: t_def rng1_def st1_def st2_def Let_def split_beta)
  from Suc.IH[of "ts0 @ [t]" st2 rng1] obtain new st' rng' where
    IH: "gen_hour L dt a cu n (ts0 @ [t], st2, rng1) = ((ts0 @ [t]) @ new, st', rng')"
      "length new = n" "\<forall>k<n. P (length (ts0 @ [t]) + k) (new ! k)"
      "stats0.total_transactions st' = stats0.total_transactions st2 + int n"
      "stats0.files_created st' = stats0.files_created st2"
      "stats0.date_range st' = stats0.date_range st2"
    by blast
  have Pt: "P (length ts0) t" unfolding t_def by (rule P)
  have all: "\<forall>k<Suc n. P (length ts0 + k) ((t # new) ! k)"
  proof (intro allI impI)
    fix k assume "k < Suc n"
    then show "P (length ts0 + k) ((t # new) ! k)"
      using Pt IH(3) by (cases k) simp_all
  qed
  have st: "stats0.total_transactions st2 = stats0.total_transactions st + 1"
    "stats0.files_created st2 = stats0.files_created st"
    "stats0.date_range st2 = stats0.date_range st"
    by (simp_all add: st2_def st1_def)
  show ?case
    apply (rule exI[of _ "t # new"], rule exI[of _ st'], rule exI[of _ rng'])
    using step IH(1,2,4,5,6) all st by simp
qed

declare hour_loop.simps [simp del]

lemma hour_loop_spec:
  assumes P: "\<And>dt ts rng. P dt (length ts) (fst (gen_transaction L dt ts a cu rng))"
    and e: "valid_datetime e" "hour e < 23"
  shows "valid_datetime c \<Longrightarrow> minute e = minute c \<Longrightarrow> second e = second c \<Longrightarrow>
    \<exists>st' rng' fs'. hour_loop L e tph od a cu (c, st, rng, fs) = Inr (st', rng', fs') \<and>
      stats0.total_transactions st' =
        stats0.total_transactions st + int (card (hours_between c e)) * int (nat tph) \<and>
      stats0.files_created st' =
        stats0.files_created st + (case od of None \<Rightarrow> 0 | Some d \<Rightarrow> int (card (hours_between c e))) \<and>
      stats0.date_range st' = stats0.date_range st \<and>
      (case od of
         None \<Rightarrow> fs' = fs
       | Some dir \<Rightarrow>
           (\<forall>p. p \<notin> file_path dir ` hours_between c e \<longrightarrow> fs' p = fs p) \<and>
           (\<forall>h \<in> hours_between c e. \<exists>ts. fs' (file_path dir h) = Some ts \<and> length ts = nat tph \<and>
                 (\<forall>k<nat tph. P h k (ts ! k))))"
proof (induction "card (hours_between c e)" arbitrary: c st rng fs)
  case 0
  then have "hours_between c e = {}" using finite_hours_between by simp
  then have "\<not> dt_le c e"
    using 0(2,3,4) by (auto simp: hours_between_def)
  then show ?case
    using \<open>hours_between c e = {}\<close>
    by (subst hour_loop.simps) (simp split: option.split)
next
  case (Suc n)
  have le: "dt_le c e"
  proof (rule ccontr)
    assume "\<not> dt_le c e"
    then have "hours_between c e = {}" by (rule hours_between_empty)
    with Suc(2) show False by simp
  qed
  from hours_between_step[OF Suc(3) e(1) le Suc(4,5) e(2)] obtain c' where
    c': "add_hour c = Inr c'" "valid_datetime c'" "minute c' = minute c" "second c' = second c"
      "hours_between c e = insert c (hours_between c' e)" "c \<notin> hours_between c' e"
    by blast
  have card: "card (hours_between c e) = Suc (card (hours_between c' e))"
    using c'(5,6) finite_hours_between[of c' e] by simp
  with Suc(2) have n: "n = card (hours_between c' e)" by simp
  from gen_hour_spec[of "P c" L c a cu "nat tph" "[]" st rng, OF P] obtain new st1 rng1 where
    g: "gen_hour L c a cu (nat tph) ([], st, rng) = (new, st1, rng1)"
      "length new = nat tph" "\<forall>k<nat tph. P c k (new ! k)"
      "stats0.total_transactions st1 = stats0.total_transactions st + int (nat tph)"
      "stats0.files_created st1 = stats0.files_created st"
      "stats0.date_range st1 = stats0.date_range st"
    by auto
  define st2 where "st2 = (case od of None \<Rightarrow> st1
      | Some dir \<Rightarrow> st1\<lparr>stats0.files_created := stats0.files_created st1 + 1\<rparr>)"
  define fs2 where "fs2 = (case od of None \<Rightarrow> fs
      | Some dir \<Rightarrow> fs(file_path dir c \<mapsto> new))"
  have step: "hour_loop L e tph od a cu (c, st, rng, fs) = hour_loop L e tph od a cu (c', st2, rng1, fs2)"
    by (subst hour_loop.simps) (simp add: le g(1) c'(1) st2_def fs2_def split: option.split)
  from Suc(1)[OF n c'(2), of st2 rng1 fs2] Suc(4,5) c'(3,4) obtain st' rng' fs' where
    IH: "hour_loop L e tph od a cu (c', st2, rng1, fs2) = Inr (st', rng', fs')"
      "stats0.total_transactions st' =
        stats0.total_transactions st2 + int (card (hours_between c' e)) * int (nat tph)"
      "stats0.files_created st' =
        stats0.files_created st2 + (case od of None \<Rightarrow> 0 | Some d \<Rightarrow> int (card (hours_between c' e)))"
      "stats0.date_range st' = stats0.date_range st2"
      "(case od of
         None \<Rightarrow> fs' = fs2
       | Some dir \<Rightarrow>
           (\<forall>p. p \<notin> file_path dir ` hours_between c' e \<longrightarrow> fs' p = fs2 p) \<and>
           (\<forall>h \<in> hours_between c' e. \<exists>ts. fs' (file_path dir h) = Some ts \<and> length ts = nat tph \<and>
                 (\<forall>k<nat tph. P h k (ts ! k))))"
    by auto
  have tot: "stats0.total_transactions st' =
        stats0.total_transactions st + int (card (hours_between c e)) * int (nat tph)"
    using IH(2) g(4) card by (simp add: st2_def algebra_simps split: option.split)
  have fc: "stats0.files_created st' =
        stats0.files_created st + (case od of None \<Rightarrow> 0 | Some d \<Rightarrow> int (card (hours_between c e)))"
    using IH(3) g(5) card by (simp add: st2_def split: option.splits)
  have dr: "stats0.date_range st' = stats0.date_range st"
    using IH(4) g(6) by (simp add: st2_def split: option.splits)
  have files: "(case od of
         None \<Rightarrow> fs' = fs
       | Some dir \<Rightarrow>
           (\<forall>p. p \<notin> file_path dir ` hours_between c e \<longrightarrow> fs' p = fs p) \<and>
           (\<forall>h \<in> hours_between c e. \<exists>ts. fs' (file_path dir h) = Some ts \<and> length ts = nat tph \<and>
                 (\<forall>k<nat tph. P h k (ts ! k))))"
  proof (cases od)
    case None
    with IH(5) show ?thesis by (simp add: fs2_def)
  next
    case (Some dir)
    with IH(5) have
      out: "\<forall>p. p \<notin> file_path dir ` hours_between c' e \<longrightarrow> fs' p = fs2 p" and
      inn: "\<forall>h \<in> hours_between c' e. \<exists>ts. fs' (file_path dir h) = Some ts \<and> length ts = nat tph \<and>
                 (\<forall>k<nat tph. P h k (ts ! k))"
      by simp_all
    have fs2: "fs2 = fs(file_path dir c \<mapsto> new)" by (simp add: fs2_def Some)
    have notin: "file_path dir c \<notin> file_path dir ` hours_between c' e"
    proof
      assume "file_path dir c \<in> file_path dir ` hours_between c' e"
      then obtain h where h: "h \<in> hours_between c' e" "file_path dir c = file_path dir h" by blast
      from file_path_inj[OF h(2)] h(1) c'(3,4) have "h = c"
        by (cases h, cases c) (simp add: hours_between_def)
      with h(1) c'(6) show False by simp
    qed
    have a1: "\<forall>p. p \<notin> file_path dir ` hours_between c e \<longrightarrow> fs' p = fs p"
      using out by (simp add: c'(5) fs2)
    have a2: "\<forall>h \<in> hours_between c e. \<exists>ts. fs' (file_path dir h) = Some ts \<and> length ts = nat tph \<and>
                 (\<forall>k<nat tph. P h k (ts ! k))"
    proof
      fix h assume "h \<in> hours_between c e"
      then consider "h = c" | "h \<in> hours_between c' e" using c'(5) by auto
      then show "\<exists>ts. fs' (file_path dir h) = Some ts \<and> length ts = nat tph \<and>
                 (\<forall>k<nat tph. P h k (ts ! k))"
      proof cases
        case 1
        have "fs' (file_path dir c) = Some new"
          using out notin by (simp add: fs2)
        with 1 g(2,3) show ?thesis by simp
      next
        case 2
        with inn show ?thesis by blast
      qed
    qed
    from a1 a2 show ?thesis by (simp add: Some)
  qed
  show ?case
    unfolding step using IH(1) tot fc dr files by blast
qed

section \<open>The card-fraud run\<close>

lemma fromisoformat_midnight:
  assumes "fromisoformat s = Inr c"
  shows "valid_datetime c \<and> hour c = 0 \<and> minute c = 0 \<and> second c = 0"
  using assms by (auto simp: fromisoformat_def Let_def split: if_splits)

lemma generate_dataset_spec:
  assumes P: "\<And>dt ts a cu rng. P dt (length ts) (fst (gen_transaction L dt ts a cu rng))"
    and dd: "default_dates start_date end_date past_days future_days now = Inr (s, en)"
    and seed: "np_seed L seed = Inr g"
    and c: "fromisoformat s = Inr c" and e: "fromisoformat en = Inr e"
  shows "\<exists>st fs'. generate_dataset L start_date end_date past_days future_days tph od seed now fs
            = Inr (st, fs') \<and>
      stats0.total_transactions st = int (card (hours_between c e)) * int (nat tph) \<and>
      stats0.files_created st = (case od of None \<Rightarrow> 0 | Some d \<Rightarrow> int (card (hours_between c e))) \<and>
      stats0.date_range st = s @ '' to '' @ en \<and>
      (case od of
         None \<Rightarrow> fs' = fs
       | Some dir \<Rightarrow>
           (\<forall>p. p \<notin> file_path dir ` hours_between c e \<longrightarrow> fs' p = fs p) \<and>
           (\<forall>h \<in> hours_between c e. \<exists>ts. fs' (file_path dir h) = Some ts \<and> length ts = nat tph \<and>
                 (\<forall>k<nat tph. P h k (ts ! k))))"
proof -
  note vc = fromisoformat_midnight[OF c]
  note ve = fromisoformat_midnight[OF e]
  define h0 where "h0 = py_seed L seed"
  define a where "a = fst (gen_ids L ''acct_'' 10000 50000 1000 h0)"
  define h1 where "h1 = snd (gen_ids L ''acct_'' 10000 50000 1000 h0)"
  define cu where "cu = fst (gen_ids L ''cust_'' 10000 30000 2000 h1)"
  define h2 where "h2 = snd (gen_ids L ''cust_'' 10000 30000 2000 h1)"
  define st0 where "st0 = \<lparr>stats0.total_transactions = 0, total_fraud = 0, stats0.files_created = 0,
                stats0.date_range = s @ '' to '' @ en\<rparr>"
  have P': "\<And>dt ts rng. P dt (length ts) (fst (gen_transaction L dt ts a cu rng))"
    by (rule P)
  from hour_loop_spec[of P L a cu e c tph od st0 "(g, h2)" fs, OF P'] vc ve
  obtain st' rng' fs' where
    hl: "hour_loop L e tph od a cu (c, st0, (g, h2), fs) = Inr (st', rng', fs')"
      "stats0.total_transactions st' =
        stats0.total_transactions st0 + int (card (hours_between c e)) * int (nat tph)"
      "stats0.files_created st' =
        stats0.files_created st0 + (case od of None \<Rightarrow> 0 | Some d \<Rightarrow> int (card (hours_between c e)))"
      "stats0.date_range st' = stats0.date_range st0"
      "(case od of
         None \<Rightarrow> fs' = fs
       | Some dir \<Rightarrow>
           (\<forall>p. p \<notin> file_path dir ` hours_between c e \<longrightarrow> fs' p = fs p) \<and>
           (\<forall>h \<in> hours_between c e. \<exists>ts. fs' (file_path dir h) = Some ts \<and> length ts = nat tph \<and>
                 (\<forall>k<nat tph. P h k (ts ! k))))"
    by auto
  define rate where "rate = (if stats0.total_transactions st' > 0
      then real_of_int (total_fraud st') / real_of_int (stats0.total_transactions st') else 0)"
  have run: "generate_dataset L start_date end_date past_days future_days tph od seed now fs
      = Inr (stats0.extend st' \<lparr>fraud_rate = rate\<rparr>, fs')"
    using hl(1) unfolding generate_dataset_def
    by (simp add: dd seed c e Let_def split_beta h0_def [symmetric] a_def [symmetric]
        h1_def [symmetric] cu_def [symmetric] h2_def [symmetric] st0_def rate_def)
  show ?thesis
    unfolding run using hl(2-5)
    by (simp add: st0_def stats0.defs)
qed

lemma generate_dataset_Inr:
  assumes "generate_dataset L start_date end_date past_days future_days tph od seed now fs
            = Inr (st, fs')"
  shows "\<exists>s en g c e. default_dates start_date end_date past_days future_days now = Inr (s, en) \<and>
           np_seed L seed = Inr g \<and> fromisoformat s = Inr c \<and> fromisoformat en = Inr e"
proof -
  obtain s en where dd: "default_dates start_date end_date past_days future_days now = Inr (s, en)"
    using assms
    by (cases "default_dates start_date end_date past_days future_days now")
       (auto simp: generate_dataset_def)
  obtain g where g: "np_seed L seed = Inr g"
    using assms dd by (cases "np_seed L seed") (simp_all add: generate_dataset_def)
  obtain c where c: "fromisoformat s = Inr c"
    using assms dd g by (cases "fromisoformat s") (simp_all add: generate_dataset_def Let_def)
  obtain e where e: "fromisoformat en = Inr e"
    using assms dd g c by (cases "fromisoformat en") (simp_all add: generate_dataset_def Let_def)
  from dd g c e show ?thesis by blast
qed

lemma hours_between_self:
  assumes "valid_datetime c"
  shows "hours_between c c = {c}"
  using assms by (auto simp: hours_between_def dest: dt_le_antisym)


section \<open>Concrete inputs\<close>

lemma parse_nov1: "fromisoformat ''2025-11-01'' = Inr nov1"
  by (simp add: fromisoformat_def nov1_def is_digit_def digit_val_def valid_datetime_def
      days_in_month_def is_leap_def)




lemma seed_const_lib: "np_seed const_lib 42 = Inr 42"
  by (simp add: const_lib_def)

lemma default_dates_given: "default_dates (Some a) (Some b) pd fd now = Inr (a, b)"
  by (simp add: default_dates_def)

lemma valid_nov1: "valid_datetime nov1"
  using fromisoformat_midnight[OF parse_nov1] by simp

lemma add_days_0: "valid_datetime d \<Longrightarrow> add_days 0 d = Inr d"
  by (simp add: add_days_def check_range_def valid_datetime_def)



section \<open>The credit-card application run\<close>

lemma cc_unfold:
  assumes g: "np_seed L seed = Inr g" and n: "0 \<le> n"
    and cols: "gen_columns L (nat n) g =
       ((groups, credit, income, ages, employment, job_years, dti, cards, history), g1)"
    and a: "map_state (gen_actual_label L)
       (zip groups (zip credit (zip income (zip dti (zip employment history))))) g1 = (actual, g2)"
    and p: "map_state (gen_predicted_prob L)
       (zip groups (zip credit (zip income (zip dti (zip employment (zip history actual)))))) g2
         = (probs, g3)"
    and v: "draws (np_choice L [0, 1] [0.01, 0.99]) (nat n) g3 = (valid, g4)"
  shows "cc_generate_dataset L n od seed pd fd now fs =
    (case add_days (- pd) (midnight now) of
        Inl e \<Rightarrow> Inl e
      | Inr start_date \<Rightarrow>
          (case gen_timestamps L start_date (pd + fd + 1) (map int [0..<nat n]) g4 of
             Inl e \<Rightarrow> Inl e
           | Inr timestamps \<Rightarrow>
               (let df = build_df groups credit income ages employment job_years dti cards history
                           actual (map (\<lambda>p. if p \<ge> 0.5 then 1 else 0) probs) probs valid
                           timestamps (nat n)
                in if df = [] then Inl IndexError
                   else (case od of
                           None \<Rightarrow> Inr (df, fs)
                         | Some output_path \<Rightarrow>
                             Inr (df, write_partitions output_path df
                                        (sort (remdups (map partition_date df))) fs)))))"
proof -
  have n': "\<not> n < 0" using n by simp
  show ?thesis
    unfolding cc_generate_dataset_def
    by (simp only: g n' cols a p v sum.case if_False Let_def prod.case)
qed

lemma cc_columns:
  assumes "np_seed L seed = Inr g" "0 \<le> n"
  obtains groups credit income ages employment job_years dti cards history g1 actual g2 probs g3
    valid g4 where
    "gen_columns L (nat n) g =
       ((groups, credit, income, ages, employment, job_years, dti, cards, history), g1)"
    "map_state (gen_actual_label L)
       (zip groups (zip credit (zip income (zip dti (zip employment history))))) g1 = (actual, g2)"
    "map_state (gen_predicted_prob L)
       (zip groups (zip credit (zip income (zip dti (zip employment (zip history actual)))))) g2
         = (probs, g3)"
    "draws (np_choice L [0, 1] [0.01, 0.99]) (nat n) g3 = (valid :: int list, g4)"
    "length probs = nat n"
    "\<forall>x \<in> set credit. 300 \<le> x \<and> x \<le> 850"
    "\<forall>x \<in> set income. 20000 \<le> x \<and> x \<le> 200000"
    "\<forall>x \<in> set ages. 18 \<le> x \<and> x \<le> 75"
    "\<forall>x \<in> set dti. 0 \<le> x \<and> x \<le> 0.8"
    "\<forall>q \<in> set probs. 0.01 \<le> q \<and> q \<le> 0.99"
    "length credit = nat n" "length income = nat n" "length ages = nat n" "length dti = nat n"
proof -
  obtain cols g1 where c: "gen_columns L (nat n) g = (cols, g1)" by (rule prod.exhaust)
  obtain groups credit income ages y where y: "cols = (groups, credit, income, ages, y)"
    by (rule prod_cases5)
  obtain employment job_years dti cards history where
    "y = (employment, job_years, dti, cards, history)" by (rule prod_cases5)
  with c y have cols:
    "gen_columns L (nat n) g =
       ((groups, credit, income, ages, employment, job_years, dti, cards, history), g1)"
    by simp
  note R = gen_columns_ranges[OF cols]
  define rows1 where "rows1 = zip groups (zip credit (zip income (zip dti (zip employment history))))"
  obtain actual g2 where a: "map_state (gen_actual_label L) rows1 g1 = (actual, g2)"
    by (rule prod.exhaust)
  define rows2 where "rows2 = zip groups (zip credit (zip income (zip dti (zip employment
                   (zip history actual)))))"
  obtain probs g3 where p: "map_state (gen_predicted_prob L) rows2 g2 = (probs, g3)"
    by (rule prod.exhaust)
  obtain valid g4 where v: "draws (np_choice L [0, 1] [0.01, 0.99]) (nat n) g3 = (valid :: int list, g4)"
    by (rule prod.exhaust)
  have "length (fst (map_state (gen_actual_label L) rows1 g1)) = length rows1"
    by (rule map_state_length)
  then have "length actual = length rows1" by (simp add: a)
  then have la: "length actual = nat n"
    using R by (simp add: rows1_def)
  have "length (fst (map_state (gen_predicted_prob L) rows2 g2)) = length rows2"
    by (rule map_state_length)
  then have "length probs = length rows2" by (simp add: p)
  then have lp: "length probs = nat n"
    using R la by (simp add: rows2_def)
  have "\<forall>q \<in> set (fst (map_state (gen_predicted_prob L) rows2 g2)). 0.01 \<le> q \<and> q \<le> 0.99"
    by (rule map_state_all) (rule gen_predicted_prob_range)
  then have pr: "\<forall>q \<in> set probs. 0.01 \<le> q \<and> q \<le> 0.99"
    unfolding p fst_conv .
  have d: "\<forall>x \<in> set dti. 0 \<le> x \<and> x \<le> 0.8" using R by simp
  show ?thesis
    by (rule that[OF cols a[unfolded rows1_def] p[unfolded rows2_def] v lp _ _ _ d pr])
       (use R in simp_all)
qed

lemma cc_result:
  assumes "cc_generate_dataset L n od seed pd fd now fs = Inr (df, fs')"
  shows "(\<forall>r \<in> set df. cc_in_range r \<and>
            predicted_label r = (if predicted_probability r \<ge> 0.5 then 1 else 0)) \<and>
         length df = nat n \<and> 0 < n \<and>
         fs' = (case od of None \<Rightarrow> fs
                | Some dir \<Rightarrow> write_partitions dir df (sort (remdups (map partition_date df))) fs)"
proof -
  obtain g where g: "np_seed L seed = Inr g"
    using assms by (cases "np_seed L seed") (simp_all add: cc_generate_dataset_def)
  have n: "0 \<le> n"
    using assms g by (cases "n < 0") (simp_all add: cc_generate_dataset_def)
  from cc_columns[OF g n] obtain groups credit income ages employment job_years dti cards history
    g1 actual g2 probs g3 valid g4 where
    C: "gen_columns L (nat n) g =
       ((groups, credit, income, ages, employment, job_years, dti, cards, history), g1)"
    "map_state (gen_actual_label L)
       (zip groups (zip credit (zip income (zip dti (zip employment history))))) g1 = (actual, g2)"
    "map_state (gen_predicted_prob L)
       (zip groups (zip credit (zip income (zip dti (zip employment (zip history actual)))))) g2
         = (probs, g3)"
    "draws (np_choice L [0, 1] [0.01, 0.99]) (nat n) g3 = (valid :: int list, g4)"
    and R: "length probs = nat n"
    "\<forall>x \<in> set credit. 300 \<le> x \<and> x \<le> 850"
    "\<forall>x \<in> set income. 20000 \<le> x \<and> x \<le> 200000"
    "\<forall>x \<in> set ages. 18 \<le> x \<and> x \<le> 75"
    "\<forall>x \<in> set dti. 0 \<le> x \<and> x \<le> 0.8"
    "\<forall>q \<in> set probs. 0.01 \<le> q \<and> q \<le> 0.99"
    "length credit = nat n" "length income = nat n" "length ages = nat n" "length dti = nat n"
    by blast
  note step = assms[unfolded cc_unfold[OF g n C]]
  then obtain start_date where sd: "add_days (- pd) (midnight now) = Inr start_date"
    by (cases "add_days (- pd) (midnight now)") simp_all
  with step obtain timestamps where
    ts: "gen_timestamps L start_date (pd + fd + 1) (map int [0..<nat n]) g4 = Inr timestamps"
    by (cases "gen_timestamps L start_date (pd + fd + 1) (map int [0..<nat n]) g4") simp_all
  define df0 where "df0 = build_df groups credit income ages employment job_years dti cards history
                           actual (map (\<lambda>p. if p \<ge> 0.5 then 1 else 0) probs) probs valid
                           timestamps (nat n)"
  from step have s2: "(if df0 = [] then Inl IndexError
                   else (case od of
                           None \<Rightarrow> Inr (df0, fs)
                         | Some output_path \<Rightarrow>
                             Inr (df0, write_partitions output_path df0
                                        (sort (remdups (map partition_date df0))) fs))) = Inr (df, fs')"
    unfolding sd ts sum.case Let_def df0_def .
  then have ne: "df0 \<noteq> []" by (cases "df0 = []") simp_all
  from s2 ne have df: "df = df0" by (cases od) simp_all
  from s2 ne have fs': "fs' = (case od of None \<Rightarrow> fs
                | Some dir \<Rightarrow> write_partitions dir df (sort (remdups (map partition_date df))) fs)"
    unfolding df by (cases od) simp_all
  have len: "length df = nat n" by (simp add: df df0_def build_df_def)
  with ne df have pos: "0 < n" by (cases "n \<le> 0") simp_all
  have rows: "\<forall>r \<in> set df. cc_in_range r \<and>
            predicted_label r = (if predicted_probability r \<ge> 0.5 then 1 else 0)"
  proof
    fix r assume "r \<in> set df"
    then obtain i where i: "i < nat n" and r: "r = build_df groups credit income ages employment
        job_years dti cards history actual (map (\<lambda>p. if p \<ge> 0.5 then 1 else 0) probs) probs valid
        timestamps (nat n) ! i"
      unfolding df df0_def using len[unfolded df df0_def] by (auto simp: in_set_conv_nth)
    have "credit ! i \<in> set credit" "income ! i \<in> set income" "ages ! i \<in> set ages"
      "dti ! i \<in> set dti" "probs ! i \<in> set probs"
      using i R by simp_all
    with R i show "cc_in_range r \<and>
           predicted_label r = (if predicted_probability r \<ge> 0.5 then 1 else 0)"
      by (simp add: cc_in_range_def r build_df_def)
  qed
  from rows len pos fs' show ?thesis by blast
qed

lemma cc_success:
  assumes g: "np_seed L seed = Inr g" and n: "0 < n"
    and sd: "add_days (- pd) (midnight now) = Inr start_date"
    and ts: "\<And>g. gen_timestamps L start_date (pd + fd + 1) (map int [0..<nat n]) g = Inr tss"
  shows "\<exists>df. cc_generate_dataset L n None seed pd fd now fs = Inr (df, fs)"
proof -
  have n0: "0 \<le> n" using n by simp
  from cc_columns[OF g n0] obtain groups credit income ages employment job_years dti cards history
    g1 actual g2 probs g3 valid g4 where
    C: "gen_columns L (nat n) g =
       ((groups, credit, income, ages, employment, job_years, dti, cards, history), g1)"
    "map_state (gen_actual_label L)
       (zip groups (zip credit (zip income (zip dti (zip employment history))))) g1 = (actual, g2)"
    "map_state (gen_predicted_prob L)
       (zip groups (zip credit (zip income (zip dti (zip employment (zip history actual)))))) g2
         = (probs, g3)"
    "draws (np_choice L [0, 1] [0.01, 0.99]) (nat n) g3 = (valid :: int list, g4)"
    and R: "length probs = nat n"
    "\<forall>x \<in> set credit. 300 \<le> x \<and> x \<le> 850"
    "\<forall>x \<in> set income. 20000 \<le> x \<and> x \<le> 200000"
    "\<forall>x \<in> set ages. 18 \<le> x \<and> x \<le> 75"
    "\<forall>x \<in> set dti. 0 \<le> x \<and> x \<le> 0.8"
    "\<forall>q \<in> set probs. 0.01 \<le> q \<and> q \<le> 0.99"
    "length credit = nat n" "length income = nat n" "length ages = nat n" "length dti = nat n"
    by blast
  have ne: "build_df groups credit income ages employment job_years dti cards history
              actual (map (\<lambda>p. if p \<ge> 0.5 then 1 else 0) probs) probs valid tss (nat n) \<noteq> []"
    using n by (simp add: build_df_def)
  show ?thesis
    unfolding cc_unfold[OF g n0 C] sd ts sum.case Let_def
    using ne by simp
qed


section \<open>The constant library\<close>

lemma np_sound_const_lib: "np_sound const_lib"
  unfolding np_sound_def
proof (intro allI)
  fix d :: dist and g :: nat
  show "in_support d (fst (np_real const_lib d g))"
    by (cases d) (simp_all add: const_lib_def)
qed

lemma midnight_now0: "midnight now0 = nov1"
  by (simp add: midnight_def now0_def nov1_def)


lemma add_timedelta_nov1: "add_timedelta_int 0 0 0 0 nov1 = Inr nov1"
proof -
  have h: "hour nov1 = 0" "minute nov1 = 0" "second nov1 = 0"
    by (simp_all add: nov1_def)
  have u: "nov1\<lparr>hour := 0, minute := 0, second := 0\<rparr> = nov1"
    by (simp add: nov1_def)
  show ?thesis
    by (simp add: add_timedelta_int_def add_days_0[OF valid_nov1] Let_def h u)
qed

lemma const_timestamp: "fst (gen_timestamp const_lib nov1 1 0 g) = Inr nov1"
proof -
  have "gen_timestamp const_lib nov1 1 0 g
          = (add_timedelta_int 0 0 0 0 nov1, Suc (Suc (Suc g)))"
    by (simp add: gen_timestamp_def const_lib_def Let_def)
  then show ?thesis by (simp add: add_timedelta_nov1)
qed

lemma const_timestamps: "gen_timestamps const_lib nov1 1 [0] g = Inr [nov1]"
proof -
  obtain x g' where x: "gen_timestamp const_lib nov1 1 0 g = (x, g')" by (rule prod.exhaust)
  with const_timestamp[of g] have "x = Inr nov1" by simp
  with x show ?thesis by simp
qed

lemma cc_const_run:
  "\<exists>df. cc_generate_dataset const_lib 1 None 42 0 0 now0 fs = Inr (df, fs)"
proof -
  have a: "add_days (- 0) (midnight now0) = Inr nov1"
    by (simp add: midnight_now0 add_days_0[OF valid_nov1])
  have l: "map int [0..<nat 1] = [0]" by simp
  have t: "\<And>g. gen_timestamps const_lib nov1 (0 + 0 + 1) (map int [0..<nat 1]) g = Inr [nov1]"
    unfolding l using const_timestamps by simp
  show ?thesis
    by (rule cc_success[OF seed_const_lib _ a t]) simp
qed

section \<open>Every record written\<close>

lemma generate_dataset_records:
  assumes Q: "\<And>dt ts a cu rng. Q (fst (gen_transaction L dt ts a cu rng))"
    and run: "generate_dataset L start_date end_date past_days future_days tph od seed now fs
            = Inr (st, fs')"
  shows "\<forall>p ts. fs' p = Some ts \<longrightarrow> fs p = Some ts \<or> (\<forall>t \<in> set ts. Q t)"
proof -
  from generate_dataset_Inr[OF run] obtain s en g c e where
    h: "default_dates start_date end_date past_days future_days now = Inr (s, en)"
    "np_seed L seed = Inr g" "fromisoformat s = Inr c" "fromisoformat en = Inr e"
    by blast
  define P where "P = (\<lambda>(h::datetime) (k::nat) (t::transaction). Q t)"
  have P: "\<And>dt ts a cu rng. P dt (length ts) (fst (gen_transaction L dt ts a cu rng))"
    unfolding P_def by (rule Q)
  from generate_dataset_spec[of P L, OF P h, of tph od fs] run
  have files: "(case od of
         None \<Rightarrow> fs' = fs
       | Some dir \<Rightarrow>
           (\<forall>p. p \<notin> file_path dir ` hours_between c e \<longrightarrow> fs' p = fs p) \<and>
           (\<forall>h \<in> hours_between c e. \<exists>ts. fs' (file_path dir h) = Some ts \<and> length ts = nat tph \<and>
                 (\<forall>k<nat tph. P h k (ts ! k))))"
    by auto
  show ?thesis
  proof (cases od)
    case None
    with files show ?thesis by simp
  next
    case (Some dir)
    with files have
      out: "\<forall>p. p \<notin> file_path dir ` hours_between c e \<longrightarrow> fs' p = fs p" and
      inn: "\<forall>h \<in> hours_between c e. \<exists>ts. fs' (file_path dir h) = Some ts \<and> length ts = nat tph \<and>
                 (\<forall>k<nat tph. P h k (ts ! k))"
      by simp_all
    show ?thesis
    proof (intro allI impI)
      fix p ts assume p: "fs' p = Some ts"
      show "fs p = Some ts \<or> (\<forall>t \<in> set ts. Q t)"
      proof (cases "p \<in> file_path dir ` hours_between c e")
        case False
        with out p show ?thesis by simp
      next
        case True
        then obtain h where "h \<in> hours_between c e" "p = file_path dir h" by blast
        with inn p have "length ts = nat tph" "\<forall>k<nat tph. P h k (ts ! k)" by auto
        then have "\<forall>t \<in> set ts. Q t" by (auto simp: P_def in_set_conv_nth)
        then show ?thesis ..
      qed
    qed
  qed
qed


section \<open>Runs with the constant library\<close>

lemma card_const_run:
  "\<exists>st fs'. generate_dataset const_lib (Some ''2025-11-01'') (Some ''2025-11-01'') 90 90 tph od 42
               now0 fs = Inr (st, fs') \<and>
      stats0.total_transactions st = int (nat tph) \<and>
      stats0.files_created st = (case od of None \<Rightarrow> 0 | Some d \<Rightarrow> 1) \<and>
      (case od of
         None \<Rightarrow> fs' = fs
       | Some dir \<Rightarrow>
           (\<forall>p. p \<noteq> file_path dir nov1 \<longrightarrow> fs' p = fs p) \<and>
           (\<exists>ts. fs' (file_path dir nov1) = Some ts \<and> length ts = nat tph))"
proof -
  define P where "P = (\<lambda>(h::datetime) (k::nat) (t::transaction). True)"
  have P: "\<And>dt ts a cu rng. P dt (length ts) (fst (gen_transaction const_lib dt ts a cu rng))"
    by (simp add: P_def)
  note h = hours_between_self[OF valid_nov1]
  from generate_dataset_spec[where P = P and L = const_lib and past_days = 90
      and future_days = 90 and now = now0 and tph = tph and od = od and fs = fs,
      OF P default_dates_given seed_const_lib parse_nov1 parse_nov1]
  show ?thesis
    unfolding h by (cases od) auto
qed

section \<open>Ranges of the generated records\<close>

text \<open>
  C2: when the draws of the library lie in the documented ranges of their distributions,
  every transaction the card-fraud generator produces, and every transaction in a file a run
  writes, has \<open>txn_amount\<close> in [1, 10000], \<open>distance_from_home_km\<close> in [0, 1000],
  \<open>merchant_risk_score\<close> and \<open>fraud_score\<close> in [0, 1], \<open>is_fraud\<close> and \<open>fraud_pred\<close> in
  {0, 1} and \<open>risk_rank\<close> in 1..5; every row of the DataFrame the cc-application generator
  returns has \<open>credit_score\<close> in [300, 850], \<open>annual_income\<close> in [20000, 200000], \<open>age\<close> in
  [18, 75], \<open>debt_to_income_ratio\<close> in [0, 0.8] and \<open>predicted_probability\<close> in [0.01, 0.99].
\<close>

theorem generated_records_in_range:
  assumes "np_sound L"
  shows "card_in_range (fst (gen_transaction L dt ts accts custs rng)) \<and>
         (generate_dataset L start_date end_date past_days future_days tph od seed now fs
            = Inr (st, fs') \<longrightarrow>
          (\<forall>p ts. fs' p = Some ts \<longrightarrow> fs p = Some ts \<or> (\<forall>t \<in> set ts. card_in_range t))) \<and>
         (cc_generate_dataset L n od2 seed2 pd2 fd2 now2 fs2 = Inr (df, fs2') \<longrightarrow>
          (\<forall>r \<in> set df. cc_in_range r))"
proof (intro conjI impI)
  show "card_in_range (fst (gen_transaction L dt ts accts custs rng))"
    by (rule gen_transaction_in_range[OF assms])
next
  assume "generate_dataset L start_date end_date past_days future_days tph od seed now fs
            = Inr (st, fs')"
  then show "\<forall>p ts. fs' p = Some ts \<longrightarrow> fs p = Some ts \<or> (\<forall>t \<in> set ts. card_in_range t)"
    by (rule generate_dataset_records[rotated]) (rule gen_transaction_in_range[OF assms])
next
  assume "cc_generate_dataset L n od2 seed2 pd2 fd2 now2 fs2 = Inr (df, fs2')"
  from cc_result[OF this] show "\<forall>r \<in> set df. cc_in_range r" by blast
qed

theorem generated_records_in_range_witness:
  "np_sound const_lib \<and>
   card_in_range (fst (gen_transaction const_lib nov1 [] [''acct_10000''] [''cust_10000''] (0, 0))) \<and>
   (\<exists>st fs'. generate_dataset const_lib (Some ''2025-11-01'') (Some ''2025-11-01'') 90 90 2
        (Some [''out'']) 42 now0 Map.empty = Inr (st, fs') \<and>
      (\<exists>ts. fs' (file_path [''out''] nov1) = Some ts \<and> length ts = 2 \<and> list_all card_in_range ts)) \<and>
   (\<exists>df. cc_generate_dataset const_lib 1 None 42 0 0 now0 Map.empty = Inr (df, Map.empty) \<and>
      length df = 1 \<and> list_all cc_in_range df)"
proof -
  obtain st fs' ts where run:
    "generate_dataset const_lib (Some ''2025-11-01'') (Some ''2025-11-01'') 90 90 2
        (Some [''out'']) 42 now0 Map.empty = Inr (st, fs')"
    "fs' (file_path [''out''] nov1) = Some ts" "length ts = 2"
    using card_const_run[of 2 "Some [''out'']" Map.empty] by auto
  obtain df where cc: "cc_generate_dataset const_lib 1 None 42 0 0 now0 Map.empty = Inr (df, Map.empty)"
    using cc_const_run by blast
  note T = generated_records_in_range[OF np_sound_const_lib,
      where start_date = "Some ''2025-11-01''" and end_date = "Some ''2025-11-01''"
        and past_days = 90 and future_days = 90 and tph = 2 and od = "Some [''out'']"
        and seed = 42 and now = now0 and fs = Map.empty and st = st and fs' = fs'
        and n = 1 and ?od2.0 = None and ?seed2.0 = 42 and ?pd2.0 = 0 and ?fd2.0 = 0
        and ?now2.0 = now0 and ?fs2.0 = Map.empty and df = df and ?fs2' = Map.empty
        and dt = nov1 and ts = "[]" and accts = "[''acct_10000'']" and custs = "[''cust_10000'']"
        and rng = "(0, 0)"]
  from T run(1,2) have "list_all card_in_range ts"
    by (auto simp: list_all_iff)
  moreover from T cc have "list_all cc_in_range df"
    by (simp add: list_all_iff)
  moreover from cc_result[OF cc] have "length df = 1" by simp
  ultimately show ?thesis
    using T run cc np_sound_const_lib by blast
qed

section \<open>The threshold of the predicted label\<close>

text \<open>
  C8: in every transaction the card-fraud generator produces, and in every transaction of a
  file a run writes, \<open>fraud_pred\<close> is 1 exactly when \<open>fraud_score\<close> is at least 0.5 (and 0
  otherwise); in every row of the DataFrame the cc-application generator returns,
  \<open>predicted_label\<close> is 1 exactly when \<open>predicted_probability\<close> is at least 0.5.
\<close>

theorem predicted_label_threshold:
  "(let t = fst (gen_transaction L dt ts accts custs rng)
    in fraud_pred t = (if fraud_score t \<ge> 0.5 then 1 else 0)) \<and>
   (generate_dataset L start_date end_date past_days future_days tph od seed now fs
      = Inr (st, fs') \<longrightarrow>
    (\<forall>p ts. fs' p = Some ts \<longrightarrow> fs p = Some ts \<or>
       (\<forall>t \<in> set ts. (fraud_pred t = 1) = (fraud_score t \<ge> 0.5)))) \<and>
   (cc_generate_dataset L n od2 seed2 pd2 fd2 now2 fs2 = Inr (df, fs2') \<longrightarrow>
    (\<forall>r \<in> set df. (predicted_label r = 1) = (predicted_probability r \<ge> 0.5)))"
proof (intro conjI impI)
  show "let t = fst (gen_transaction L dt ts accts custs rng)
    in fraud_pred t = (if fraud_score t \<ge> 0.5 then 1 else 0)"
    unfolding Let_def by (rule gen_transaction_pred)
next
  assume "generate_dataset L start_date end_date past_days future_days tph od seed now fs
            = Inr (st, fs')"
  then show "\<forall>p ts. fs' p = Some ts \<longrightarrow> fs p = Some ts \<or>
       (\<forall>t \<in> set ts. (fraud_pred t = 1) = (fraud_score t \<ge> 0.5))"
    by (rule generate_dataset_records[rotated]) (simp add: gen_transaction_pred)
next
  assume "cc_generate_dataset L n od2 seed2 pd2 fd2 now2 fs2 = Inr (df, fs2')"
  from cc_result[OF this] show "\<forall>r \<in> set df. (predicted_label r = 1) = (predicted_probability r \<ge> 0.5)"
    by auto
qed

theorem predicted_label_threshold_witness:
  "(\<exists>st fs'. generate_dataset const_lib (Some ''2025-11-01'') (Some ''2025-11-01'') 90 90 2
        (Some [''out'']) 42 now0 Map.empty = Inr (st, fs') \<and>
      (\<exists>ts. fs' (file_path [''out''] nov1) = Some ts \<and> length ts = 2 \<and>
         list_all (\<lambda>t. (fraud_pred t = 1) = (fraud_score t \<ge> 0.5)) ts)) \<and>
   (\<exists>df. cc_generate_dataset const_lib 1 None 42 0 0 now0 Map.empty = Inr (df, Map.empty) \<and>
      length df = 1 \<and>
      list_all (\<lambda>r. (predicted_label r = 1) = (predicted_probability r \<ge> 0.5)) df)"
proof -
  obtain st fs' ts where run:
    "generate_dataset const_lib (Some ''2025-11-01'') (Some ''2025-11-01'') 90 90 2
        (Some [''out'']) 42 now0 Map.empty = Inr (st, fs')"
    "fs' (file_path [''out''] nov1) = Some ts" "length ts = 2"
    using card_const_run[of 2 "Some [''out'']" Map.empty] by auto
  obtain df where cc: "cc_generate_dataset const_lib 1 None 42 0 0 now0 Map.empty = Inr (df, Map.empty)"
    using cc_const_run by blast
  note T = predicted_label_threshold[
      where L = const_lib and start_date = "Some ''2025-11-01''" and end_date = "Some ''2025-11-01''"
        and past_days = 90 and future_days = 90 and tph = 2 and od = "Some [''out'']"
        and seed = 42 and now = now0 and fs = Map.empty and st = st and fs' = fs'
        and n = 1 and ?od2.0 = None and ?seed2.0 = 42 and ?pd2.0 = 0 and ?fd2.0 = 0
        and ?now2.0 = now0 and ?fs2.0 = Map.empty and df = df and ?fs2' = Map.empty]
  from T run(1,2) have "list_all (\<lambda>t. (fraud_pred t = 1) = (fraud_score t \<ge> 0.5)) ts"
    by (auto simp: list_all_iff)
  moreover from T cc have "list_all (\<lambda>r. (predicted_label r = 1) = (predicted_probability r \<ge> 0.5)) df"
    by (simp add: list_all_iff)
  moreover from cc_result[OF cc] have "length df = 1" by simp
  ultimately show ?thesis
    using run cc by blast
qed

section \<open>The hourly files of the card-fraud generator\<close>





section \<open>The files a run writes\<close>



section \<open>The clock\<close>




section \<open>The fraud probability of the card-fraud generator\<close>

lemma fraud_base_prob_spec:
  "fraud_base_prob s a d m c = fraud_prob_spec s a d m c"
  by (simp add: fraud_base_prob_def fraud_prob_spec_def Let_def)

lemma fraud_prob_spec_bounds:
  "0.05 \<le> fraud_prob_spec s a d m c \<and> fraud_prob_spec s a d m c \<le> 0.30"
  by (simp add: fraud_prob_spec_def)

lemma gen_transaction_is_fraud:
  "is_fraud (fst (gen_transaction L dt ts accts custs (g, h))) =
     fst (gen_is_fraud L
            (transaction.customer_segment (fst (gen_transaction L dt ts accts custs (g, h))))
            (txn_amount (fst (gen_transaction L dt ts accts custs (g, h))))
            (distance_from_home_km (fst (gen_transaction L dt ts accts custs (g, h))))
            (merchant_risk_score (fst (gen_transaction L dt ts accts custs (g, h))))
            (transaction.channel (fst (gen_transaction L dt ts accts custs (g, h))))
            (snd (gen_features L g)))"
  by (simp add: gen_transaction_def Let_def split_beta)

text \<open>
  C4: in the card-fraud generator, \<open>is_fraud\<close> of a transaction is 1 exactly when the uniform
  draw made after the features is below a parameter computed from the transaction's own
  features: 0.05 times 1.5 for the segment \<open>new_to_bank\<close>, 1.3 for an amount above 500,
  1.4 for a distance above 50, 1.2 for a merchant risk above 0.5 and 1.3 for the channel
  \<open>atm\<close>, capped at 0.30; and the parameter lies between 0.05 and 0.30.
\<close>

theorem card_fraud_bernoulli_parameter:
  "(let t = fst (gen_transaction L dt ts accts custs (g, h));
        u = fst (np_real L Random (snd (gen_features L g)));
        p = fraud_prob_spec (transaction.customer_segment t) (txn_amount t) (distance_from_home_km t)
              (merchant_risk_score t) (transaction.channel t)
    in is_fraud t = (if u < p then 1 else 0) \<and> 0.05 \<le> p \<and> p \<le> 0.30)"
proof -
  define t where "t = fst (gen_transaction L dt ts accts custs (g, h))"
  define p where "p = fraud_prob_spec (transaction.customer_segment t) (txn_amount t)
      (distance_from_home_km t) (merchant_risk_score t) (transaction.channel t)"
  have bounds: "0.05 \<le> p \<and> p \<le> 0.30"
    unfolding p_def by (rule fraud_prob_spec_bounds)
  have "is_fraud t = (if fst (np_real L Random (snd (gen_features L g))) < p then 1 else 0)"
    unfolding p_def t_def
    by (subst gen_transaction_is_fraud)
       (simp add: gen_is_fraud_def fraud_base_prob_spec Let_def split_beta)
  with bounds show ?thesis
    unfolding Let_def t_def [symmetric] p_def [symmetric] by simp
qed

end
